theory Spec2Isabelle
  imports Complex_Main "HOL-Library.AList"
begin

section \<open>The streaming anomaly detector of \<open>ml_ddos_detector.py\<close>\<close>

text \<open>
  A shallow embedding of class \<open>MLDDoSDetector\<close>. Conventions:
  \<^item> Python floats (timestamps, scores, thresholds, features) are read as \<open>real\<close>; no
    rounding, infinity or NaN is modelled.
  \<^item> A Python \<open>dict\<close> is an association list in insertion order with pairwise distinct keys:
    assignment to a present key keeps its position, assignment to a new key appends
    (\<open>AList.update\<close>), \<open>del\<close> removes the entry (\<open>AList.delete\<close>).
  \<^item> \<open>time.time()\<close>, read inside \<open>_clean_old_data\<close>, is the argument \<open>now\<close>.
  \<^item> The library calls \<open>StandardScaler().fit_transform\<close>, \<open>IsolationForest.fit\<close>,
    \<open>scaler.transform\<close> and \<open>-score_samples\<close> are one parameter \<open>fit\<close>: given the matrix
    of cached feature vectors it either raises (\<open>None\<close>) or yields the function that maps a
    feature vector to its anomaly score (higher is more anomalous).
  \<^item> Each method runs atomically; the background thread is the operation
    \<open>periodic_analysis\<close> (one iteration of its loop), interleaved between calls.
  \<^item> Logging and the best-effort file written by \<open>_save_state\<close> are not part of the state.
\<close>

subsection \<open>Data\<close>

record traffic_record =
  timestamp :: real
  bytes :: int
  http_method :: string
  url :: string
  status_code :: int

type_synonym scorer = "real list list \<Rightarrow> (real list \<Rightarrow> real) option"

record detector =
  block_threshold :: real
  window_size :: real
  features_window :: nat
  traffic_data :: "(string \<times> traffic_record list) list"
  ip_timestamps :: "(string \<times> real list) list"
  ip_features :: "(string \<times> real list) list"
  blocked_ips :: "string set"
  suspicious_ips :: "string set"
  false_positives :: "string set"
  model_fits :: nat

text \<open>
  \<open>model_fits\<close> is a ghost field: the number of times the training sequence
  (\<open>scaler.fit_transform\<close> followed by \<open>self.model.fit\<close>) has been started.
  \<open>init\<close> is the state built by \<open>__init__\<close> before \<open>_load_state\<close> runs.
\<close>

definition init :: "real \<Rightarrow> real \<Rightarrow> nat \<Rightarrow> detector" where
  "init thr ws fw =
     \<lparr>block_threshold = thr, window_size = ws, features_window = fw,
      traffic_data = [], ip_timestamps = [], ip_features = [],
      blocked_ips = {}, suspicious_ips = {}, false_positives = {},
      model_fits = 0\<rparr>"

text \<open>
  \<open>_load_state\<close>: when the state file exists and parses, its two lists replace the blocked
  set and the false positives; otherwise (\<open>None\<close>) the state is left as it is.
\<close>

definition load_state :: "(string list \<times> string list) option \<Rightarrow> detector \<Rightarrow> detector" where
  "load_state file s =
     (case file of
        None \<Rightarrow> s
      | Some (blocked, fps) \<Rightarrow> s\<lparr>blocked_ips := set blocked, false_positives := set fps\<rparr>)"

subsection \<open>Containers\<close>

text \<open>\<open>d[k]\<close> on a \<open>defaultdict\<close>: a missing key is inserted with the default value.\<close>

definition dd_touch :: "'v \<Rightarrow> string \<Rightarrow> (string \<times> 'v) list \<Rightarrow> (string \<times> 'v) list" where
  "dd_touch dflt k d = (case map_of d k of None \<Rightarrow> AList.update k dflt d | Some _ \<Rightarrow> d)"

definition dd_get :: "'v \<Rightarrow> string \<Rightarrow> (string \<times> 'v) list \<Rightarrow> 'v" where
  "dd_get dflt k d = (case map_of d k of None \<Rightarrow> dflt | Some v \<Rightarrow> v)"

text \<open>\<open>deque(maxlen=n).append(x)\<close>: the oldest entries fall out on the left.\<close>

definition deque_append :: "nat \<Rightarrow> 'a list \<Rightarrow> 'a \<Rightarrow> 'a list" where
  "deque_append n xs x = (let ys = xs @ [x] in drop (length ys - n) ys)"

subsection \<open>Feature extraction\<close>

fun diff :: "real list \<Rightarrow> real list" where
  "diff (x # y # ys) = (y - x) # diff (y # ys)"
| "diff _ = []"

definition mean :: "real list \<Rightarrow> real" where
  "mean xs = sum_list xs / real (length xs)"

definition std :: "real list \<Rightarrow> real" where
  "std xs = sqrt (mean (map (\<lambda>x. (x - mean xs)\<^sup>2) xs))"

definition list_max :: "'a::linorder list \<Rightarrow> 'a" where
  "list_max xs = fold max (tl xs) (hd xs)"

definition list_min :: "'a::linorder list \<Rightarrow> 'a" where
  "list_min xs = fold min (tl xs) (hd xs)"

text \<open>Python's \<open>int(ts)\<close> truncates towards zero.\<close>

definition py_int :: "real \<Rightarrow> int" where
  "py_int x = (if 0 \<le> x then \<lfloor>x\<rfloor> else \<lceil>x\<rceil>)"

definition bucket_counts :: "real list \<Rightarrow> (int \<times> nat) list" where
  "bucket_counts tss =
     fold (\<lambda>ts m. AList.update (py_int ts) (Suc (case map_of m (py_int ts) of None \<Rightarrow> 0 | Some c \<Rightarrow> c)) m)
       tss []"

definition ratio :: "nat \<Rightarrow> nat \<Rightarrow> real" where
  "ratio c n = (if n = 0 then 0 else real c / real n)"

text \<open>The ten features of a window \<open>data\<close> with at least two records, in the source's order.\<close>

definition features :: "traffic_record list \<Rightarrow> real list" where
  "features data =
     (let timestamps = map timestamp data;
          intervals = diff timestamps;
          span = list_max timestamps - list_min timestamps;
          time_span = (if span < 0.001 then 0.001 else span);
          req_rate = real (length data) / time_span;
          total_bytes = sum_list (map bytes data);
          bytes_rate = real_of_int total_bytes / time_span;
          methods = map http_method data;
          get_ratio = ratio (count_list methods ''GET'') (length methods);
          post_ratio = ratio (count_list methods ''POST'') (length methods);
          unique_urls = real (card (set (map url data))) / real (length data);
          status_codes = map status_code data;
          error_ratio = ratio (length (filter (\<lambda>c. 400 \<le> c) status_codes)) (length status_codes);
          ratio_4xx = ratio (length (filter (\<lambda>c. 400 \<le> c \<and> c < 500) status_codes))
                        (length status_codes);
          max_burst = (if 1 < length timestamps
                       then list_max (map snd (bucket_counts timestamps)) else 1)
      in [req_rate,
          if 0 < length intervals then mean intervals else 0,
          if 0 < length intervals then std intervals else 0,
          bytes_rate, get_ratio, post_ratio, unique_urls, error_ratio, ratio_4xx,
          real max_burst])"

definition extract_features_for_ip :: "string \<Rightarrow> detector \<Rightarrow> detector" where
  "extract_features_for_ip ip s =
     (let s1 = s\<lparr>traffic_data := dd_touch [] ip (traffic_data s)\<rparr>;
          data = dd_get [] ip (traffic_data s1)
      in if length data < 2 then s1
         else s1\<lparr>ip_features := AList.update ip (features data) (ip_features s1)\<rparr>)"

subsection \<open>Pruning\<close>

text \<open>The \<open>while\<close> loop of \<open>_clean_old_data\<close>: the index of the first timestamp in the window.\<close>

function first_in_window :: "real \<Rightarrow> real list \<Rightarrow> nat \<Rightarrow> nat" where
  "first_in_window cutoff timestamps idx =
     (if idx < length timestamps \<and> timestamps ! idx < cutoff
      then first_in_window cutoff timestamps (Suc idx) else idx)"
  by pat_completeness auto
termination
  by (relation "measure (\<lambda>(c, tss, i). length tss - i)") auto

declare first_in_window.simps [simp del]

text \<open>The body of the \<open>for\<close> loop of \<open>_clean_old_data\<close> for one key.\<close>

definition clean_ip :: "real \<Rightarrow> string \<Rightarrow> detector \<Rightarrow> detector" where
  "clean_ip cutoff ip s =
     (let s1 = s\<lparr>ip_timestamps := dd_touch [] ip (ip_timestamps s)\<rparr>;
          timestamps = dd_get [] ip (ip_timestamps s1)
      in if timestamps = [] then s1
         else let idx = first_in_window cutoff timestamps 0
              in if 0 < idx
                 then (if drop idx timestamps = []
                       then s1\<lparr>ip_timestamps := AList.delete ip (ip_timestamps s1),
                               traffic_data := AList.delete ip (traffic_data s1),
                               ip_features := AList.delete ip (ip_features s1)\<rparr>
                       else s1\<lparr>ip_timestamps :=
                                 AList.update ip (drop idx timestamps) (ip_timestamps s1)\<rparr>)
                 else s1)"

definition clean_old_data :: "real \<Rightarrow> detector \<Rightarrow> detector" where
  "clean_old_data now s =
     fold (clean_ip (now - window_size s)) (map fst (ip_timestamps s)) s"

subsection \<open>Decisions\<close>

definition block_ip :: "string \<Rightarrow> detector \<Rightarrow> detector" where
  "block_ip ip s =
     (if ip \<notin> blocked_ips s then s\<lparr>blocked_ips := insert ip (blocked_ips s)\<rparr> else s)"

definition check_anomaly_realtime :: "scorer \<Rightarrow> string \<Rightarrow> detector \<Rightarrow> bool \<times> detector" where
  "check_anomaly_realtime fit ip s =
     (if ip \<in> false_positives s then (True, s)
      else let all_features = map snd (ip_features s)
           in if length all_features < 10 then (True, s)
              else let s1 = s\<lparr>model_fits := Suc (model_fits s)\<rparr>
                   in case fit all_features of
                        None \<Rightarrow> (True, s1)
                      | Some score \<Rightarrow>
                          (case map_of (ip_features s1) ip of
                             None \<Rightarrow> (True, s1)
                           | Some v \<Rightarrow>
                               let anomaly_score = score v
                               in if block_threshold s1 < anomaly_score
                                  then let s2 = s1\<lparr>suspicious_ips := insert ip (suspicious_ips s1)\<rparr>
                                       in if block_threshold s2 * 1.5 < anomaly_score
                                          then (False, block_ip ip s2)
                                          else (True, s2)
                                  else (True, s1)))"

definition record_request ::
  "scorer \<Rightarrow> real \<Rightarrow> string \<Rightarrow> real \<Rightarrow> int \<Rightarrow> string \<Rightarrow> string \<Rightarrow> int \<Rightarrow> detector
     \<Rightarrow> bool \<times> detector" where
  "record_request fit now ip ts bytes_sent meth u status s =
     (if ip \<in> blocked_ips s then (False, s)
      else let r = \<lparr>timestamp = ts, bytes = bytes_sent, http_method = meth, url = u,
                     status_code = status\<rparr>;
               s1 = s\<lparr>traffic_data :=
                        AList.update ip
                          (deque_append (features_window s) (dd_get [] ip (traffic_data s)) r)
                          (traffic_data s)\<rparr>;
               s2 = s1\<lparr>ip_timestamps :=
                         AList.update ip (dd_get [] ip (ip_timestamps s1) @ [ts])
                           (ip_timestamps s1)\<rparr>;
               s3 = clean_old_data now s2;
               s4 = s3\<lparr>traffic_data := dd_touch [] ip (traffic_data s3)\<rparr>
           in if min 5 (features_window s4) \<le> length (dd_get [] ip (traffic_data s4))
              then let s5 = extract_features_for_ip ip s4
                   in if map_of (ip_features s5) ip \<noteq> None \<and> 10 < length (ip_features s5)
                      then check_anomaly_realtime fit ip s5
                      else (True, s5)
              else (True, s4))"

definition unblock_ip :: "string \<Rightarrow> bool \<Rightarrow> detector \<Rightarrow> bool \<times> detector" where
  "unblock_ip ip mark_as_false_positive s =
     (if ip \<in> blocked_ips s
      then let s1 = s\<lparr>blocked_ips := blocked_ips s - {ip}\<rparr>;
               s2 = (if mark_as_false_positive
                     then s1\<lparr>false_positives := insert ip (false_positives s1)\<rparr> else s1)
           in (True, s2)
      else (False, s))"

text \<open>The body of the \<open>for idx, ip in enumerate(ip_list)\<close> loop of the periodic analysis.\<close>

definition analyse_ip :: "(real list \<Rightarrow> real) \<Rightarrow> string \<times> real list \<Rightarrow> detector \<Rightarrow> detector" where
  "analyse_ip score kv s =
     (let ip = fst kv
      in if ip \<in> blocked_ips s \<or> ip \<in> false_positives s then s
         else let sc = score (snd kv)
              in if block_threshold s < sc
                 then let s1 = s\<lparr>suspicious_ips := insert ip (suspicious_ips s)\<rparr>
                      in if block_threshold s1 * 1.3 < sc then block_ip ip s1 else s1
                 else s)"

text \<open>One iteration of the loop of \<open>_periodic_analysis\<close>, after the sleep.\<close>

definition periodic_analysis :: "scorer \<Rightarrow> real \<Rightarrow> detector \<Rightarrow> detector" where
  "periodic_analysis fit now s =
     (if length (ip_features s) < 5 then s
      else let s1 = s\<lparr>model_fits := Suc (model_fits s)\<rparr>
           in case fit (map snd (ip_features s)) of
                None \<Rightarrow> s1
              | Some score \<Rightarrow> clean_old_data now (fold (analyse_ip score) (ip_features s) s1))"

record status =
  st_blocked_ips :: "string set"
  st_suspicious_ips :: "string set"
  monitoring_ips :: nat
  st_false_positives :: "string set"

definition get_status :: "detector \<Rightarrow> status" where
  "get_status s =
     \<lparr>st_blocked_ips = blocked_ips s, st_suspicious_ips = suspicious_ips s,
      monitoring_ips = length (ip_features s), st_false_positives = false_positives s\<rparr>"

subsection \<open>Traces\<close>

datatype event =
    Request real string real int string string int
  | Sweep real
  | Unblock string bool

fun step :: "scorer \<Rightarrow> event \<Rightarrow> detector \<Rightarrow> detector" where
  "step fit (Request now ip ts b m u c) s = snd (record_request fit now ip ts b m u c s)"
| "step fit (Sweep now) s = periodic_analysis fit now s"
| "step fit (Unblock ip mark) s = snd (unblock_ip ip mark s)"

definition run :: "scorer \<Rightarrow> event list \<Rightarrow> detector \<Rightarrow> detector" where
  "run fit evs s = fold (step fit) evs s"

subsection \<open>The isolation forest on populations of two kinds\<close>

text \<open>
  The ensemble behind \<open>self.model\<close> is library code that is not part of the repository;
  section 4.3 of the spec gives its algorithm. Each tree is built from a subsample of
  \<open>min 256 n\<close> of the \<open>n\<close> vectors, so from all of them up to 256. A node is split at a
  value strictly between the minimum and the maximum of a feature, and a partition of
  equal vectors cannot be split. Hence on a population with exactly two distinct vectors
  every tree is the same whatever the random choices: the root separates the two kinds
  and both children are leaves. Normalisation maps equal vectors to equal vectors and
  distinct ones to distinct ones, so it changes none of this.
\<close>

text \<open>Modelled from the spec: the constant \<open>\<gamma>\<close> of section 4.3.\<close>

definition euler_gamma :: real where
  "euler_gamma = 5772156649 / 10000000000"

text \<open>
  Modelled from the spec: the correction added to the path length for a leaf of \<open>c\<close>
  points (section 4.3). For a leaf of two points the library adds 1 instead; the examples
  score no vector in such a leaf.
\<close>

definition leaf_correction :: "nat \<Rightarrow> real" where
  "leaf_correction c =
     (if 1 < c then 2 * (ln (real c - 1) + euler_gamma) - 2 * (real c - 1) / real c else 0)"

text \<open>Modelled from the spec: the normaliser \<open>c(n)\<close> for the subsample size \<open>n\<close> (section 4.3).\<close>

definition normaliser :: "nat \<Rightarrow> real" where
  "normaliser n =
     (if 1 < n then 2 * (ln (real n - 1) + euler_gamma) - 2 * (real n - 1) / real n else 1)"

text \<open>
  Modelled from the spec: the score of a vector in a population of \<open>n\<close> equal vectors,
  where the root is the only node of every tree and a leaf of \<open>n\<close> points.
\<close>

definition one_kind_score :: "nat \<Rightarrow> real" where
  "one_kind_score n = 2 powr (- (leaf_correction n / normaliser n))"

text \<open>
  Modelled from the spec: the score of a vector in a population of \<open>n\<close> vectors of two
  kinds, \<open>m\<close> of them equal to it: one internal node, then a leaf of \<open>m\<close> points.
\<close>

definition two_kind_score :: "nat \<Rightarrow> nat \<Rightarrow> real" where
  "two_kind_score m n = 2 powr (- ((1 + leaf_correction m) / normaliser n))"

text \<open>
  Modelled from the spec: fitting normalisation and ensemble to the population \<open>X\<close> and
  scoring a vector of it (section 4.3), for at most 256 vectors of at most two kinds.
  On any other population the trees depend on the random choices; there the scorer is
  the argument \<open>other\<close>.
\<close>

definition isolation_forest :: "scorer \<Rightarrow> scorer" where
  "isolation_forest other X =
     (if length (remdups X) \<le> 2 \<and> length X \<le> 256
      then Some (\<lambda>v. if length (remdups X) \<le> 1 then one_kind_score (length X)
                     else two_kind_score (count_list X v) (length X))
      else other X)"

subsection \<open>Stages of \<open>record_request\<close>\<close>

text \<open>
  Names for the intermediate states of \<open>record_request\<close>, used in the proofs:
  \<open>appended\<close> is the state after the two \<open>append\<close> calls, \<open>stored\<close> the state after
  \<open>_clean_old_data\<close> and the \<open>defaultdict\<close> access of the length test,
  \<open>refreshed\<close> the state after the conditional feature extraction.
  \<open>enough_samples\<close> is the length test itself and \<open>reaches_check\<close> the whole condition
  under which \<open>_check_anomaly_realtime\<close> is called. \<open>flagged\<close> is the set of keys one
  periodic analysis scores above the threshold and above \<open>bound\<close>; \<open>exempt\<close> says that a
  key is a false positive and not blocked.
\<close>

definition appended :: "string \<Rightarrow> traffic_record \<Rightarrow> detector \<Rightarrow> detector" where
  "appended ip r s =
     (let s1 = s\<lparr>traffic_data :=
                  AList.update ip
                    (deque_append (features_window s) (dd_get [] ip (traffic_data s)) r)
                    (traffic_data s)\<rparr>
      in s1\<lparr>ip_timestamps :=
               AList.update ip (dd_get [] ip (ip_timestamps s1) @ [timestamp r])
                 (ip_timestamps s1)\<rparr>)"

definition stored :: "real \<Rightarrow> string \<Rightarrow> traffic_record \<Rightarrow> detector \<Rightarrow> detector" where
  "stored now ip r s =
     (let s3 = clean_old_data now (appended ip r s)
      in s3\<lparr>traffic_data := dd_touch [] ip (traffic_data s3)\<rparr>)"

definition enough_samples :: "string \<Rightarrow> detector \<Rightarrow> bool" where
  "enough_samples ip s \<longleftrightarrow>
     min 5 (features_window s) \<le> length (dd_get [] ip (traffic_data s))"

definition refreshed :: "real \<Rightarrow> string \<Rightarrow> traffic_record \<Rightarrow> detector \<Rightarrow> detector" where
  "refreshed now ip r s =
     (if enough_samples ip (stored now ip r s)
      then extract_features_for_ip ip (stored now ip r s) else stored now ip r s)"

definition reaches_check :: "string \<Rightarrow> detector \<Rightarrow> bool" where
  "reaches_check ip s \<longleftrightarrow>
     enough_samples ip s \<and> map_of (ip_features s) ip \<noteq> None \<and> 10 < length (ip_features s)"

definition flagged :: "(real list \<Rightarrow> real) \<Rightarrow> real \<Rightarrow> (string \<times> real list) list \<Rightarrow> detector \<Rightarrow> string set" where
  "flagged score bound kvs s =
     {ip. \<exists>v. (ip, v) \<in> set kvs \<and> ip \<notin> blocked_ips s \<and> ip \<notin> false_positives s
            \<and> block_threshold s < score v \<and> bound < score v}"

definition exempt :: "string \<Rightarrow> detector \<Rightarrow> bool" where
  "exempt k s \<longleftrightarrow> k \<in> false_positives s \<and> k \<notin> blocked_ips s"

subsection \<open>Example traffic\<close>

text \<open>
  \<open>error_ratio_scorer\<close> is not the library model but one instance of the parameter
  \<open>fit\<close>, at which theorems that hold for every scorer are applied: it never raises and
  scores a feature vector by its eighth component, the error ratio, whatever the
  population. \<open>req t ip c\<close> is a request with status \<open>c\<close> issued and recorded at clock
  time \<open>t\<close>. \<open>first_wave\<close> and \<open>second_wave\<close> are the requests of five sources during
  twenty seconds with the periodic analysis at seconds 10 and 20; \<open>crowd\<close> is the start of
  eleven sources within one second, before the first periodic analysis.
  \<open>five\<close>, \<open>gathering\<close> and \<open>crowded\<close> are the states these traces lead to.
\<close>

definition error_ratio_scorer :: scorer where
  "error_ratio_scorer X = Some (\<lambda>v. v ! 7)"

definition req :: "real \<Rightarrow> string \<Rightarrow> int \<Rightarrow> event" where
  "req t ip c = Request t ip t 1500 ''GET'' ''/'' c"

definition hit :: "real \<Rightarrow> int \<Rightarrow> traffic_record" where
  "hit t c = \<lparr>timestamp = t, bytes = 1500, http_method = ''GET'', url = ''/'', status_code = c\<rparr>"

definition calm :: "real list" where
  "calm = [2, 1, 0, 3000, 1, 0, 1 / 2, 0, 0, 1]"

definition odd :: "real list" where
  "odd = [2, 1, 0, 3000, 1, 0, 1 / 2, 1 / 2, 1 / 2, 1]"

definition first_wave :: "event list" where
  "first_wave =
     [req 0 ''a'' 404, req 1 ''a'' 200, req 0 ''b'' 200, req 1 ''b'' 200,
      req 0 ''c'' 200, req 1 ''c'' 200, req 0 ''d'' 200, req 1 ''d'' 200,
      req 0 ''e'' 200, req 1 ''e'' 200]"

definition second_wave :: "event list" where
  "second_wave =
     [Sweep 10, req 11 ''a'' 200, req 11 ''e'' 200,
      req 11 ''b'' 500, req 12 ''b'' 500, req 11 ''c'' 500, req 12 ''c'' 500,
      req 17 ''d'' 200, Sweep 20]"

definition five :: "real \<Rightarrow> detector" where
  "five t =
     \<lparr>block_threshold = t, window_size = 15, features_window = 2,
      traffic_data = [(''a'', [hit 0 404, hit 1 200]), (''b'', [hit 0 200, hit 1 200]),
                      (''c'', [hit 0 200, hit 1 200]), (''d'', [hit 0 200, hit 1 200]),
                      (''e'', [hit 0 200, hit 1 200])],
      ip_timestamps = [(''a'', [0, 1]), (''b'', [0, 1]), (''c'', [0, 1]), (''d'', [0, 1]),
                       (''e'', [0, 1])],
      ip_features = [(''a'', odd), (''b'', calm), (''c'', calm), (''d'', calm), (''e'', calm)],
      blocked_ips = {}, suspicious_ips = {}, false_positives = {}, model_fits = 0\<rparr>"

definition crowd :: "event list" where
  "crowd =
     [req 0 ''b'' 200, req 1 ''b'' 200, req 0 ''c'' 200, req 1 ''c'' 200,
      req 0 ''d'' 200, req 1 ''d'' 200, req 0 ''e'' 200, req 1 ''e'' 200,
      req 0 ''f'' 200, req 1 ''f'' 200, req 0 ''g'' 200, req 1 ''g'' 200,
      req 0 ''h'' 200, req 1 ''h'' 200, req 0 ''i'' 200, req 1 ''i'' 200,
      req 0 ''j'' 200, req 1 ''j'' 200, req 0 ''k'' 200, req 1 ''k'' 200,
      req 0 ''a'' 404]"

definition gathering :: "real \<Rightarrow> string set \<Rightarrow> detector" where
  "gathering t F =
     \<lparr>block_threshold = t, window_size = 300, features_window = 2,
      traffic_data = [(''b'', [hit 0 200, hit 1 200]), (''c'', [hit 0 200, hit 1 200]),
                      (''d'', [hit 0 200, hit 1 200]), (''e'', [hit 0 200, hit 1 200]),
                      (''f'', [hit 0 200, hit 1 200]), (''g'', [hit 0 200, hit 1 200]),
                      (''h'', [hit 0 200, hit 1 200]), (''i'', [hit 0 200, hit 1 200]),
                      (''j'', [hit 0 200, hit 1 200]), (''k'', [hit 0 200, hit 1 200]),
                      (''a'', [hit 0 404])],
      ip_timestamps = [(''b'', [0, 1]), (''c'', [0, 1]), (''d'', [0, 1]), (''e'', [0, 1]),
                       (''f'', [0, 1]), (''g'', [0, 1]), (''h'', [0, 1]), (''i'', [0, 1]),
                       (''j'', [0, 1]), (''k'', [0, 1]), (''a'', [0])],
      ip_features = [(''b'', calm), (''c'', calm), (''d'', calm), (''e'', calm), (''f'', calm),
                     (''g'', calm), (''h'', calm), (''i'', calm), (''j'', calm), (''k'', calm)],
      blocked_ips = {}, suspicious_ips = {}, false_positives = F, model_fits = 0\<rparr>"

definition crowded :: "real \<Rightarrow> string set \<Rightarrow> detector" where
  "crowded t F =
     \<lparr>block_threshold = t, window_size = 300, features_window = 2,
      traffic_data = [(''b'', [hit 0 200, hit 1 200]), (''c'', [hit 0 200, hit 1 200]),
                      (''d'', [hit 0 200, hit 1 200]), (''e'', [hit 0 200, hit 1 200]),
                      (''f'', [hit 0 200, hit 1 200]), (''g'', [hit 0 200, hit 1 200]),
                      (''h'', [hit 0 200, hit 1 200]), (''i'', [hit 0 200, hit 1 200]),
                      (''j'', [hit 0 200, hit 1 200]), (''k'', [hit 0 200, hit 1 200]),
                      (''a'', [hit 0 404, hit 1 200])],
      ip_timestamps = [(''b'', [0, 1]), (''c'', [0, 1]), (''d'', [0, 1]), (''e'', [0, 1]),
                       (''f'', [0, 1]), (''g'', [0, 1]), (''h'', [0, 1]), (''i'', [0, 1]),
                       (''j'', [0, 1]), (''k'', [0, 1]), (''a'', [0, 1])],
      ip_features = [(''b'', calm), (''c'', calm), (''d'', calm), (''e'', calm), (''f'', calm),
                     (''g'', calm), (''h'', calm), (''i'', calm), (''j'', calm), (''k'', calm), (''a'', odd)],
      blocked_ips = {}, suspicious_ips = {}, false_positives = F, model_fits = 0\<rparr>"


definition late_burst :: "event list" where
  "late_burst =
     [req 0 ''10.0.0.99'' 200, req 1 ''10.0.0.99'' 200, req 2 ''10.0.0.99'' 200,
      req 3 ''10.0.0.99'' 200, req 1000 ''10.0.0.99'' 200]"

definition barred :: detector where
  "barred = load_state (Some ([''10.0.0.99''], [])) (init (4/5) 300 100)"

definition pardoned :: detector where
  "pardoned = load_state (Some ([], [''a''])) (init (1/5) 15 2)"

definition third_wave :: "event list" where
  "third_wave = [Sweep 20, req 30 ''b'' 200, Sweep 30, Unblock ''a'' False]"

text \<open>
  Eleven sources that each send one request per second, with a window of one second and
  \<open>features_window\<close> 2, so that the feature vector of a source is \<open>calm\<close> when its last
  two requests succeeded and \<open>odd\<close> when one of them was answered 404. \<open>arrival\<close> is
  second 0 and second 1 up to the last request but one; \<open>assembled\<close> is the state it
  leads to. \<open>surge\<close> is the rest: the second request of \<open>a\<close>, second 2 and the first two
  requests of second 3. The whole trace lasts three seconds, so no periodic analysis runs.
\<close>

definition arrival :: "event list" where
  "arrival =
     [req 0 ''e'' 200, req 0 ''f'' 200, req 0 ''g'' 200, req 0 ''h'' 200, req 0 ''i'' 200,
      req 0 ''j'' 200, req 0 ''k'' 200, req 0 ''b'' 404, req 0 ''c'' 404, req 0 ''d'' 404,
      req 0 ''a'' 404,
      req 1 ''e'' 200, req 1 ''f'' 200, req 1 ''g'' 200, req 1 ''h'' 200, req 1 ''i'' 200,
      req 1 ''j'' 200, req 1 ''k'' 200, req 1 ''b'' 200, req 1 ''c'' 200, req 1 ''d'' 200]"

definition surge :: "event list" where
  "surge =
     [req 1 ''a'' 200,
      req 2 ''e'' 404, req 2 ''f'' 404, req 2 ''g'' 200, req 2 ''h'' 200, req 2 ''i'' 200,
      req 2 ''j'' 200, req 2 ''k'' 200, req 2 ''b'' 200, req 2 ''c'' 200, req 2 ''d'' 200,
      req 2 ''a'' 200,
      req 3 ''b'' 404, req 3 ''e'' 200]"

definition assembled :: "real \<Rightarrow> detector" where
  "assembled t =
     \<lparr>block_threshold = t, window_size = 1, features_window = 2,
      traffic_data = [(''e'', [hit 0 200, hit 1 200]), (''f'', [hit 0 200, hit 1 200]),
                      (''g'', [hit 0 200, hit 1 200]), (''h'', [hit 0 200, hit 1 200]),
                      (''i'', [hit 0 200, hit 1 200]), (''j'', [hit 0 200, hit 1 200]),
                      (''k'', [hit 0 200, hit 1 200]), (''b'', [hit 0 404, hit 1 200]),
                      (''c'', [hit 0 404, hit 1 200]), (''d'', [hit 0 404, hit 1 200]),
                      (''a'', [hit 0 404])],
      ip_timestamps = [(''e'', [0, 1]), (''f'', [0, 1]), (''g'', [0, 1]), (''h'', [0, 1]),
                       (''i'', [0, 1]), (''j'', [0, 1]), (''k'', [0, 1]), (''b'', [0, 1]),
                       (''c'', [0, 1]), (''d'', [0, 1]), (''a'', [0])],
      ip_features = [(''e'', calm), (''f'', calm), (''g'', calm), (''h'', calm), (''i'', calm),
                     (''j'', calm), (''k'', calm), (''b'', odd), (''c'', odd), (''d'', odd)],
      blocked_ips = {}, suspicious_ips = {}, false_positives = {}, model_fits = 0\<rparr>"

section \<open>Properties of the operations\<close>

subsection \<open>Frame lemmas\<close>

lemma dd_touch_distinct: "distinct (map fst d) \<Longrightarrow> distinct (map fst (dd_touch dflt k d))"
  by (simp add: dd_touch_def distinct_update split: option.splits)

lemma clean_ip_frame:
  "block_threshold (clean_ip c ip s) = block_threshold s"
  "window_size (clean_ip c ip s) = window_size s"
  "features_window (clean_ip c ip s) = features_window s"
  "blocked_ips (clean_ip c ip s) = blocked_ips s"
  "suspicious_ips (clean_ip c ip s) = suspicious_ips s"
  "false_positives (clean_ip c ip s) = false_positives s"
  "model_fits (clean_ip c ip s) = model_fits s"
  by (simp_all add: clean_ip_def Let_def)

lemma fold_clean_ip_frame:
  "block_threshold (fold (clean_ip c) ks s) = block_threshold s"
  "window_size (fold (clean_ip c) ks s) = window_size s"
  "features_window (fold (clean_ip c) ks s) = features_window s"
  "blocked_ips (fold (clean_ip c) ks s) = blocked_ips s"
  "suspicious_ips (fold (clean_ip c) ks s) = suspicious_ips s"
  "false_positives (fold (clean_ip c) ks s) = false_positives s"
  "model_fits (fold (clean_ip c) ks s) = model_fits s"
  by (induction ks arbitrary: s; simp add: clean_ip_frame)+

lemma clean_old_data_frame [simp]:
  "block_threshold (clean_old_data now s) = block_threshold s"
  "window_size (clean_old_data now s) = window_size s"
  "features_window (clean_old_data now s) = features_window s"
  "blocked_ips (clean_old_data now s) = blocked_ips s"
  "suspicious_ips (clean_old_data now s) = suspicious_ips s"
  "false_positives (clean_old_data now s) = false_positives s"
  "model_fits (clean_old_data now s) = model_fits s"
  by (simp_all add: clean_old_data_def fold_clean_ip_frame)

lemma extract_features_for_ip_frame [simp]:
  "block_threshold (extract_features_for_ip ip s) = block_threshold s"
  "window_size (extract_features_for_ip ip s) = window_size s"
  "features_window (extract_features_for_ip ip s) = features_window s"
  "blocked_ips (extract_features_for_ip ip s) = blocked_ips s"
  "suspicious_ips (extract_features_for_ip ip s) = suspicious_ips s"
  "false_positives (extract_features_for_ip ip s) = false_positives s"
  "model_fits (extract_features_for_ip ip s) = model_fits s"
  "ip_timestamps (extract_features_for_ip ip s) = ip_timestamps s"
  by (simp_all add: extract_features_for_ip_def Let_def)

lemma block_ip_frame [simp]:
  "block_threshold (block_ip ip s) = block_threshold s"
  "window_size (block_ip ip s) = window_size s"
  "features_window (block_ip ip s) = features_window s"
  "traffic_data (block_ip ip s) = traffic_data s"
  "ip_timestamps (block_ip ip s) = ip_timestamps s"
  "ip_features (block_ip ip s) = ip_features s"
  "blocked_ips (block_ip ip s) = insert ip (blocked_ips s)"
  "suspicious_ips (block_ip ip s) = suspicious_ips s"
  "false_positives (block_ip ip s) = false_positives s"
  "model_fits (block_ip ip s) = model_fits s"
  by (auto simp add: block_ip_def)

text \<open>What the inline check may change.\<close>

lemma check_anomaly_realtime_frame:
  "block_threshold (snd (check_anomaly_realtime fit ip s)) = block_threshold s"
  "window_size (snd (check_anomaly_realtime fit ip s)) = window_size s"
  "features_window (snd (check_anomaly_realtime fit ip s)) = features_window s"
  "traffic_data (snd (check_anomaly_realtime fit ip s)) = traffic_data s"
  "ip_timestamps (snd (check_anomaly_realtime fit ip s)) = ip_timestamps s"
  "ip_features (snd (check_anomaly_realtime fit ip s)) = ip_features s"
  "false_positives (snd (check_anomaly_realtime fit ip s)) = false_positives s"
  by (simp_all add: check_anomaly_realtime_def Let_def split: option.splits)

lemma check_anomaly_realtime_sets:
  "blocked_ips (snd (check_anomaly_realtime fit ip s)) = blocked_ips s
   \<or> blocked_ips (snd (check_anomaly_realtime fit ip s)) = insert ip (blocked_ips s)"
  "suspicious_ips (snd (check_anomaly_realtime fit ip s)) = suspicious_ips s
   \<or> suspicious_ips (snd (check_anomaly_realtime fit ip s)) = insert ip (suspicious_ips s)"
  by (simp_all add: check_anomaly_realtime_def Let_def split: option.splits)

lemma check_anomaly_realtime_false_positive:
  "ip \<in> false_positives s \<Longrightarrow> check_anomaly_realtime fit ip s = (True, s)"
  by (simp add: check_anomaly_realtime_def)


lemma stored_frame [simp]:
  "block_threshold (stored now ip r s) = block_threshold s"
  "window_size (stored now ip r s) = window_size s"
  "features_window (stored now ip r s) = features_window s"
  "blocked_ips (stored now ip r s) = blocked_ips s"
  "suspicious_ips (stored now ip r s) = suspicious_ips s"
  "false_positives (stored now ip r s) = false_positives s"
  "model_fits (stored now ip r s) = model_fits s"
  by (simp_all add: stored_def appended_def Let_def)

lemma refreshed_frame [simp]:
  "block_threshold (refreshed now ip r s) = block_threshold s"
  "window_size (refreshed now ip r s) = window_size s"
  "features_window (refreshed now ip r s) = features_window s"
  "blocked_ips (refreshed now ip r s) = blocked_ips s"
  "suspicious_ips (refreshed now ip r s) = suspicious_ips s"
  "false_positives (refreshed now ip r s) = false_positives s"
  "model_fits (refreshed now ip r s) = model_fits s"
  by (simp_all add: refreshed_def)

lemma extract_features_for_ip_samples:
  "dd_get [] ip (traffic_data (extract_features_for_ip ip s)) = dd_get [] ip (traffic_data s)"
  by (simp add: extract_features_for_ip_def Let_def dd_get_def dd_touch_def update_conv'
      split: option.splits)

lemma enough_samples_extract:
  "enough_samples ip (extract_features_for_ip ip s) = enough_samples ip s"
  by (simp add: enough_samples_def extract_features_for_ip_samples)

lemma record_request_unfold:
  "record_request fit now ip ts b m u c s =
     (let r = \<lparr>timestamp = ts, bytes = b, http_method = m, url = u, status_code = c\<rparr>
      in if ip \<in> blocked_ips s then (False, s)
         else if reaches_check ip (refreshed now ip r s)
              then check_anomaly_realtime fit ip (refreshed now ip r s)
              else (True, refreshed now ip r s))"
  by (simp add: record_request_def stored_def appended_def refreshed_def reaches_check_def
      enough_samples_def extract_features_for_ip_samples Let_def)

lemma record_request_sets:
  "false_positives (snd (record_request fit now ip ts b m u c s)) = false_positives s"
  "blocked_ips (snd (record_request fit now ip ts b m u c s)) = blocked_ips s
   \<or> blocked_ips (snd (record_request fit now ip ts b m u c s)) = insert ip (blocked_ips s)"
  "suspicious_ips (snd (record_request fit now ip ts b m u c s)) = suspicious_ips s
   \<or> suspicious_ips (snd (record_request fit now ip ts b m u c s)) = insert ip (suspicious_ips s)"
  using check_anomaly_realtime_sets [of fit ip "refreshed now ip \<lparr>timestamp = ts, bytes = b, http_method = m, url = u, status_code = c\<rparr> s"]
  by (simp_all add: record_request_unfold Let_def check_anomaly_realtime_frame)


subsection \<open>The periodic analysis\<close>

lemma analyse_ip_frame [simp]:
  "block_threshold (analyse_ip score kv s) = block_threshold s"
  "window_size (analyse_ip score kv s) = window_size s"
  "features_window (analyse_ip score kv s) = features_window s"
  "traffic_data (analyse_ip score kv s) = traffic_data s"
  "ip_timestamps (analyse_ip score kv s) = ip_timestamps s"
  "ip_features (analyse_ip score kv s) = ip_features s"
  "false_positives (analyse_ip score kv s) = false_positives s"
  "model_fits (analyse_ip score kv s) = model_fits s"
  by (simp_all add: analyse_ip_def Let_def)

lemma fold_analyse_ip_frame [simp]:
  "block_threshold (fold (analyse_ip score) kvs s) = block_threshold s"
  "window_size (fold (analyse_ip score) kvs s) = window_size s"
  "features_window (fold (analyse_ip score) kvs s) = features_window s"
  "traffic_data (fold (analyse_ip score) kvs s) = traffic_data s"
  "ip_timestamps (fold (analyse_ip score) kvs s) = ip_timestamps s"
  "ip_features (fold (analyse_ip score) kvs s) = ip_features s"
  "false_positives (fold (analyse_ip score) kvs s) = false_positives s"
  "model_fits (fold (analyse_ip score) kvs s) = model_fits s"
  by (induction kvs arbitrary: s; simp)+

lemma analyse_ip_blocked:
  "blocked_ips (analyse_ip score kv s) =
     blocked_ips s \<union> flagged score (block_threshold s * 1.3) [kv] s"
  by (cases kv) (auto simp add: analyse_ip_def flagged_def Let_def)

lemma analyse_ip_suspicious:
  "suspicious_ips (analyse_ip score kv s) =
     suspicious_ips s \<union> flagged score (block_threshold s) [kv] s"
  by (cases kv) (auto simp add: analyse_ip_def flagged_def Let_def)

lemma fold_analyse_ip_blocked:
  "blocked_ips (fold (analyse_ip score) kvs s) =
     blocked_ips s \<union> flagged score (block_threshold s * 1.3) kvs s"
proof (induction kvs arbitrary: s)
  case Nil
  show ?case by (simp add: flagged_def)
next
  case (Cons kv kvs)
  show ?case
    by (auto simp add: Cons.IH analyse_ip_blocked flagged_def)
qed

lemma fold_analyse_ip_suspicious:
  "suspicious_ips (fold (analyse_ip score) kvs s) =
     suspicious_ips s \<union> flagged score (block_threshold s) kvs s"
proof (induction kvs arbitrary: s)
  case Nil
  show ?case by (simp add: flagged_def)
next
  case (Cons kv kvs)
  have sub: "blocked_ips s \<subseteq> blocked_ips (analyse_ip score kv s)"
    by (simp add: analyse_ip_blocked)
  have blk: "blocked_ips (analyse_ip score kv s) \<subseteq> blocked_ips s \<union> suspicious_ips (analyse_ip score kv s)"
    by (cases kv) (auto simp add: analyse_ip_def Let_def)
  show ?case
    using sub blk
    by (auto simp add: Cons.IH analyse_ip_suspicious analyse_ip_blocked flagged_def)
qed

lemma periodic_analysis_frame [simp]:
  "block_threshold (periodic_analysis fit now s) = block_threshold s"
  "window_size (periodic_analysis fit now s) = window_size s"
  "features_window (periodic_analysis fit now s) = features_window s"
  "false_positives (periodic_analysis fit now s) = false_positives s"
  by (simp_all add: periodic_analysis_def Let_def split: option.splits)

lemma periodic_analysis_blocked:
  "blocked_ips (periodic_analysis fit now s) =
     (if length (ip_features s) < 5 then blocked_ips s
      else case fit (map snd (ip_features s)) of
             None \<Rightarrow> blocked_ips s
           | Some score \<Rightarrow>
               blocked_ips s \<union> flagged score (block_threshold s * 1.3) (ip_features s) s)"
  by (simp add: periodic_analysis_def Let_def fold_analyse_ip_blocked flagged_def
      split: option.splits)

lemma periodic_analysis_suspicious:
  "suspicious_ips (periodic_analysis fit now s) =
     (if length (ip_features s) < 5 then suspicious_ips s
      else case fit (map snd (ip_features s)) of
             None \<Rightarrow> suspicious_ips s
           | Some score \<Rightarrow>
               suspicious_ips s \<union> flagged score (block_threshold s) (ip_features s) s)"
  by (simp add: periodic_analysis_def Let_def fold_analyse_ip_suspicious flagged_def
      split: option.splits)


subsection \<open>Steps and runs\<close>

lemma unblock_ip_frame [simp]:
  "block_threshold (snd (unblock_ip ip mark s)) = block_threshold s"
  "window_size (snd (unblock_ip ip mark s)) = window_size s"
  "features_window (snd (unblock_ip ip mark s)) = features_window s"
  "traffic_data (snd (unblock_ip ip mark s)) = traffic_data s"
  "ip_timestamps (snd (unblock_ip ip mark s)) = ip_timestamps s"
  "ip_features (snd (unblock_ip ip mark s)) = ip_features s"
  "suspicious_ips (snd (unblock_ip ip mark s)) = suspicious_ips s"
  "model_fits (snd (unblock_ip ip mark s)) = model_fits s"
  by (simp_all add: unblock_ip_def Let_def)

lemma step_suspicious: "suspicious_ips s \<subseteq> suspicious_ips (step fit ev s)"
proof (cases ev)
  case (Request now ip ts b m u c)
  then show ?thesis
    using record_request_sets(3) [of fit now ip ts b m u c s] by auto
next
  case (Sweep now)
  then show ?thesis
    by (simp add: periodic_analysis_suspicious split: option.splits)
next
  case (Unblock ip mark)
  then show ?thesis by simp
qed

lemma run_suspicious: "suspicious_ips s \<subseteq> suspicious_ips (run fit evs s)"
  unfolding run_def
proof (induction evs arbitrary: s)
  case Nil
  show ?case by simp
next
  case (Cons ev evs)
  have "suspicious_ips s \<subseteq> suspicious_ips (step fit ev s)"
    by (rule step_suspicious)
  also have "\<dots> \<subseteq> suspicious_ips (fold (step fit) evs (step fit ev s))"
    by (rule Cons.IH)
  finally show ?case by simp
qed

lemma record_request_false_positive:
  assumes "k \<in> false_positives s" and "k \<notin> blocked_ips s"
  shows "record_request fit now k ts b m u c s =
           (True, refreshed now k \<lparr>timestamp = ts, bytes = b, http_method = m, url = u,
                                    status_code = c\<rparr> s)"
  using assms
  by (simp add: record_request_unfold Let_def check_anomaly_realtime_false_positive)

lemma step_exempt:
  assumes "exempt k s"
  shows "exempt k (step fit ev s) \<and> (k \<in> suspicious_ips (step fit ev s) \<longleftrightarrow> k \<in> suspicious_ips s)"
proof (cases ev)
  case (Request now ip ts b m u c)
  show ?thesis
  proof (cases "ip = k")
    case True
    with assms Request show ?thesis
      by (simp add: exempt_def record_request_false_positive)
  next
    case False
    with assms Request show ?thesis
      using record_request_sets [of fit now ip ts b m u c s]
      by (auto simp add: exempt_def)
  qed
next
  case (Sweep now)
  with assms show ?thesis
    by (auto simp add: exempt_def periodic_analysis_blocked periodic_analysis_suspicious
        flagged_def split: option.splits)
next
  case (Unblock ip mark)
  with assms show ?thesis
    by (auto simp add: exempt_def unblock_ip_def Let_def)
qed

lemma run_exempt:
  "exempt k s \<Longrightarrow>
     exempt k (run fit evs s) \<and> (k \<in> suspicious_ips (run fit evs s) \<longleftrightarrow> k \<in> suspicious_ips s)"
  unfolding run_def
proof (induction evs arbitrary: s)
  case Nil
  then show ?case by simp
next
  case (Cons ev evs)
  from step_exempt [OF Cons.prems, of fit ev] Cons.IH [of "step fit ev s"]
  show ?case by simp
qed

subsection \<open>The inline check\<close>

lemma check_anomaly_realtime_fits:
  "model_fits (snd (check_anomaly_realtime fit ip s)) =
     (if ip \<notin> false_positives s \<and> 10 \<le> length (ip_features s)
      then Suc (model_fits s) else model_fits s)"
  by (simp add: check_anomaly_realtime_def Let_def split: option.splits)

lemma check_anomaly_realtime_reaches:
  "reaches_check ip (snd (check_anomaly_realtime fit ip s)) = reaches_check ip s"
  by (simp add: reaches_check_def enough_samples_def check_anomaly_realtime_frame)

subsection \<open>The threshold\<close>

lemma clean_ip_threshold:
  "clean_ip c ip (s\<lparr>block_threshold := t\<rparr>) = (clean_ip c ip s)\<lparr>block_threshold := t\<rparr>"
  by (simp add: clean_ip_def Let_def)

lemma fold_clean_ip_threshold:
  "fold (clean_ip c) ks (s\<lparr>block_threshold := t\<rparr>) = (fold (clean_ip c) ks s)\<lparr>block_threshold := t\<rparr>"
  by (induction ks arbitrary: s) (simp_all add: clean_ip_threshold)

lemma clean_old_data_threshold:
  "clean_old_data now (s\<lparr>block_threshold := t\<rparr>) = (clean_old_data now s)\<lparr>block_threshold := t\<rparr>"
  by (simp add: clean_old_data_def fold_clean_ip_threshold)

lemma extract_features_for_ip_threshold:
  "extract_features_for_ip ip (s\<lparr>block_threshold := t\<rparr>) =
     (extract_features_for_ip ip s)\<lparr>block_threshold := t\<rparr>"
  by (simp add: extract_features_for_ip_def Let_def)

lemma appended_threshold:
  "appended ip r (s\<lparr>block_threshold := t\<rparr>) = (appended ip r s)\<lparr>block_threshold := t\<rparr>"
  by (simp add: appended_def Let_def)

lemma stored_threshold:
  "stored now ip r (s\<lparr>block_threshold := t\<rparr>) = (stored now ip r s)\<lparr>block_threshold := t\<rparr>"
  by (simp add: stored_def Let_def appended_threshold clean_old_data_threshold)

lemma refreshed_threshold:
  "refreshed now ip r (s\<lparr>block_threshold := t\<rparr>) = (refreshed now ip r s)\<lparr>block_threshold := t\<rparr>"
  by (simp add: refreshed_def stored_threshold extract_features_for_ip_threshold
      enough_samples_def)

lemma check_anomaly_realtime_blocked:
  "blocked_ips (snd (check_anomaly_realtime fit ip s)) =
     blocked_ips s \<union>
     {k. k = ip \<and> ip \<notin> false_positives s \<and> 10 \<le> length (ip_features s)
         \<and> (\<exists>score v. fit (map snd (ip_features s)) = Some score
               \<and> map_of (ip_features s) ip = Some v
               \<and> block_threshold s < score v \<and> block_threshold s * 1.5 < score v)}"
  by (auto simp add: check_anomaly_realtime_def Let_def split: option.splits)

lemma check_anomaly_realtime_threshold_mono:
  assumes "t1 \<le> t2"
  shows "blocked_ips (snd (check_anomaly_realtime fit ip (s\<lparr>block_threshold := t2\<rparr>)))
         \<subseteq> blocked_ips (snd (check_anomaly_realtime fit ip (s\<lparr>block_threshold := t1\<rparr>)))"
  using assms by (auto simp add: check_anomaly_realtime_blocked)

lemma record_request_threshold_mono:
  assumes "t1 \<le> t2"
  shows "blocked_ips (snd (record_request fit now ip ts b m u c (s\<lparr>block_threshold := t2\<rparr>)))
         \<subseteq> blocked_ips (snd (record_request fit now ip ts b m u c (s\<lparr>block_threshold := t1\<rparr>)))"
proof -
  let ?r = "\<lparr>timestamp = ts, bytes = b, http_method = m, url = u, status_code = c\<rparr>"
  have reach: "reaches_check ip (s'\<lparr>block_threshold := t\<rparr>) = reaches_check ip s'" for s' t
    by (simp add: reaches_check_def enough_samples_def)
  show ?thesis
    using check_anomaly_realtime_threshold_mono [OF assms, of fit ip "refreshed now ip ?r s"]
    by (simp add: record_request_unfold Let_def refreshed_threshold reach)
qed

lemma periodic_analysis_threshold_mono:
  assumes "t1 \<le> t2"
  shows "blocked_ips (periodic_analysis fit now (s\<lparr>block_threshold := t2\<rparr>))
         \<subseteq> blocked_ips (periodic_analysis fit now (s\<lparr>block_threshold := t1\<rparr>))"
  using assms
  by (auto simp add: periodic_analysis_blocked flagged_def split: option.splits)

lemma step_finite: "finite (blocked_ips s) \<Longrightarrow> finite (blocked_ips (step fit ev s))"
proof (cases ev)
  case (Request now ip ts b m u c)
  assume "finite (blocked_ips s)"
  with Request show ?thesis
    using record_request_sets(2) [of fit now ip ts b m u c s] by auto
next
  case (Sweep now)
  assume fin: "finite (blocked_ips s)"
  have "flagged score bound (ip_features s) s \<subseteq> fst ` set (ip_features s)" for score bound
    by (force simp add: flagged_def)
  then have "finite (flagged score bound (ip_features s) s)" for score bound
    by (rule finite_subset) simp
  with Sweep fin show ?thesis
    by (simp add: periodic_analysis_blocked split: option.splits)
next
  case (Unblock ip mark)
  assume "finite (blocked_ips s)"
  with Unblock show ?thesis by (simp add: unblock_ip_def Let_def)
qed

subsection \<open>Keys of the feature cache\<close>

lemma clean_ip_distinct:
  "distinct (map fst (ip_features s)) \<Longrightarrow> distinct (map fst (ip_features (clean_ip c ip s)))"
  by (simp add: clean_ip_def Let_def distinct_delete)

lemma fold_clean_ip_distinct:
  "distinct (map fst (ip_features s)) \<Longrightarrow>
     distinct (map fst (ip_features (fold (clean_ip c) ks s)))"
  by (induction ks arbitrary: s) (simp_all add: clean_ip_distinct)

lemma clean_old_data_distinct:
  "distinct (map fst (ip_features s)) \<Longrightarrow> distinct (map fst (ip_features (clean_old_data now s)))"
  by (simp add: clean_old_data_def fold_clean_ip_distinct)

lemma extract_features_for_ip_distinct:
  "distinct (map fst (ip_features s)) \<Longrightarrow>
     distinct (map fst (ip_features (extract_features_for_ip ip s)))"
  by (simp add: extract_features_for_ip_def Let_def distinct_update)

lemma refreshed_distinct:
  "distinct (map fst (ip_features s)) \<Longrightarrow>
     distinct (map fst (ip_features (refreshed now ip r s)))"
  by (simp add: refreshed_def stored_def appended_def Let_def
      extract_features_for_ip_distinct clean_old_data_distinct)

lemma step_distinct:
  assumes "distinct (map fst (ip_features s))"
  shows "distinct (map fst (ip_features (step fit ev s)))"
proof (cases ev)
  case (Request now ip ts b m u c)
  with assms show ?thesis
    by (simp add: record_request_unfold Let_def refreshed_distinct check_anomaly_realtime_frame)
next
  case (Sweep now)
  with assms show ?thesis
    by (simp add: periodic_analysis_def Let_def clean_old_data_distinct split: option.splits)
next
  case (Unblock ip mark)
  with assms show ?thesis by simp
qed

lemma run_distinct:
  "distinct (map fst (ip_features s)) \<Longrightarrow> distinct (map fst (ip_features (run fit evs s)))"
  unfolding run_def by (induction evs arbitrary: s) (simp_all add: step_distinct)

lemma check_anomaly_realtime_population:
  assumes "ip \<notin> false_positives s"
  shows "(length (ip_features s) < 10 \<longrightarrow> check_anomaly_realtime fit ip s = (True, s))
         \<and> (10 \<le> length (ip_features s) \<and> map_of (ip_features s) ip = Some v \<longrightarrow>
              model_fits (snd (check_anomaly_realtime fit ip s)) = Suc (model_fits s)
              \<and> (fit (map snd (ip_features s)) = None \<longrightarrow>
                    fst (check_anomaly_realtime fit ip s))
              \<and> (\<forall>score. fit (map snd (ip_features s)) = Some score \<longrightarrow>
                    (fst (check_anomaly_realtime fit ip s)
                       \<longleftrightarrow> \<not> (block_threshold s < score v \<and> block_threshold s * 1.5 < score v))
                    \<and> (ip \<in> suspicious_ips (snd (check_anomaly_realtime fit ip s))
                       \<longleftrightarrow> ip \<in> suspicious_ips s \<or> block_threshold s < score v)))"
  using assms
  by (auto simp add: check_anomaly_realtime_def Let_def split: option.splits)

subsection \<open>Scores of the isolation forest\<close>

text \<open>
  Bounds of \<open>exp\<close> by its Taylor polynomials give bounds of the logarithms of 2, 3, 5 and
  7, and these the order between the scores of eleven vectors of two kinds and the
  thresholds of the example: with three equal vectors in the leaf the score (0.678) is
  above 16/25, with four (0.606) it is between 72/125 and 16/25, with five to nine
  (0.557 down to 0.450) it is between 32/75 and 72/125.
\<close>

lemma exp_lower_taylor:
  fixes x :: real
  assumes "0 \<le> x"
  shows "(\<Sum>m<n. x ^ m / fact m) \<le> exp x"
proof -
  obtain t where "exp x = (\<Sum>m<n. x ^ m / fact m) + (exp t / fact n) * x ^ n"
    using Maclaurin_exp_le [of x n] by blast
  moreover have "0 \<le> (exp t / fact n) * x ^ n"
    using assms by simp
  ultimately show ?thesis by linarith
qed

lemma exp_upper_taylor:
  fixes x :: real
  assumes "0 \<le> x" and "x ^ n / fact n < 1"
  shows "exp x \<le> (\<Sum>m<n. x ^ m / fact m) / (1 - x ^ n / fact n)"
proof -
  let ?q = "x ^ n / fact n"
  let ?S = "\<Sum>m<n. x ^ m / fact m"
  obtain t where t: "\<bar>t\<bar> \<le> \<bar>x\<bar>"
    and e: "exp x = ?S + (exp t / fact n) * x ^ n"
    using Maclaurin_exp_le [of x n] by blast
  from t assms(1) have "exp t \<le> exp x" by simp
  moreover have "0 \<le> ?q" using assms(1) by simp
  ultimately have "exp t * ?q \<le> exp x * ?q"
    by (rule mult_right_mono)
  moreover from e have "exp x = ?S + exp t * ?q" by simp
  ultimately have "exp x * (1 - ?q) \<le> ?S"
    by (simp add: right_diff_distrib)
  moreover from assms(2) have "0 < 1 - ?q" by simp
  ultimately show ?thesis
    by (simp add: pos_le_divide_eq)
qed

lemma ln_upper:
  fixes r u :: real
  assumes "0 < r" and "0 \<le> u" and "r \<le> (\<Sum>m<n. u ^ m / fact m)"
  shows "ln r \<le> u"
proof -
  have "r \<le> exp u" using assms(3) exp_lower_taylor [OF assms(2), of n] by linarith
  then have "ln r \<le> ln (exp u)" using assms(1) by (simp del: ln_exp)
  then show ?thesis by simp
qed

lemma ln_lower:
  fixes r l :: real
  assumes "0 < r" and "0 \<le> l" and "l ^ n / fact n < 1"
    and "(\<Sum>m<n. l ^ m / fact m) \<le> r * (1 - l ^ n / fact n)"
  shows "l \<le> ln r"
proof -
  have "exp l \<le> (\<Sum>m<n. l ^ m / fact m) / (1 - l ^ n / fact n)"
    by (rule exp_upper_taylor [OF assms(2,3)])
  also have "\<dots> \<le> r"
    using assms(3,4) by (simp add: pos_divide_le_eq)
  finally show ?thesis using assms(1) by (simp add: ln_ge_iff)
qed

lemma ln2_bounds: "693/1000 \<le> ln (2::real)" "ln (2::real) \<le> 6932/10000"
  by (rule ln_lower [where n = 10]; simp add: lessThan_nat_numeral fact_numeral power_divide)
     (rule ln_upper [where n = 10]; simp add: lessThan_nat_numeral fact_numeral power_divide)

lemma ln3_bounds: "1098/1000 \<le> ln (3::real)" "ln (3::real) \<le> 10987/10000"
  by (rule ln_lower [where n = 12]; simp add: lessThan_nat_numeral fact_numeral power_divide)
     (rule ln_upper [where n = 12]; simp add: lessThan_nat_numeral fact_numeral power_divide)

lemma ln5_bounds: "1609/1000 \<le> ln (5::real)" "ln (5::real) \<le> 16095/10000"
  by (rule ln_lower [where n = 14]; simp add: lessThan_nat_numeral fact_numeral power_divide)
     (rule ln_upper [where n = 14]; simp add: lessThan_nat_numeral fact_numeral power_divide)

lemma ln7_bounds: "1945/1000 \<le> ln (7::real)" "ln (7::real) \<le> 1946/1000"
  by (rule ln_lower [where n = 16]; simp add: lessThan_nat_numeral fact_numeral power_divide)
     (rule ln_upper [where n = 16]; simp add: lessThan_nat_numeral fact_numeral power_divide)


lemma ln4: "ln (4::real) = 2 * ln 2"
  using ln_realpow [of 2 2] by simp

lemma ln6: "ln (6::real) = ln 2 + ln 3"
  using ln_mult [of 2 3] by simp

lemma ln8: "ln (8::real) = 3 * ln 2"
  using ln_realpow [of 2 3] by simp

lemma ln10: "ln (10::real) = ln 2 + ln 5"
  using ln_mult [of 2 5] by simp

lemma normaliser_11: "39402/10000 \<le> normaliser 11" "normaliser 11 \<le> 39417/10000"
  using ln2_bounds ln5_bounds by (simp_all add: normaliser_def euler_gamma_def ln10)

lemma path_3: "1 + leaf_correction 3 \<le> 22075/10000"
  using ln2_bounds by (simp add: leaf_correction_def euler_gamma_def)

lemma path_4: "28504/10000 \<le> 1 + leaf_correction 4" "1 + leaf_correction 4 \<le> 28519/10000"
  using ln3_bounds by (simp_all add: leaf_correction_def euler_gamma_def)

lemma path_5_9:
  assumes "5 \<le> m" and "m \<le> 9"
  shows "33264/10000 \<le> 1 + leaf_correction m" "1 + leaf_correction m \<le> 45359/10000"
proof -
  from assms have "m = 5 \<or> m = 6 \<or> m = 7 \<or> m = 8 \<or> m = 9" by arith
  then have "33264/10000 \<le> 1 + leaf_correction m \<and> 1 + leaf_correction m \<le> 45359/10000"
    using ln2_bounds ln3_bounds ln5_bounds ln7_bounds
    by (auto simp add: leaf_correction_def euler_gamma_def ln4 ln6 ln8)
  then show "33264/10000 \<le> 1 + leaf_correction m" "1 + leaf_correction m \<le> 45359/10000"
    by simp_all
qed

lemma neg_ln_16_25: "4452/10000 \<le> - ln (16/25 :: real)" "- ln (16/25 :: real) \<le> 447/1000"
proof -
  have "ln (16/25 :: real) = 4 * ln 2 - 2 * ln 5"
    using ln_realpow [of 2 4] ln_realpow [of 5 2] by (simp add: ln_div)
  then show "4452/10000 \<le> - ln (16/25 :: real)" "- ln (16/25 :: real) \<le> 447/1000"
    using ln2_bounds ln5_bounds by simp_all
qed

lemma neg_ln_72_125: "55/100 \<le> - ln (72/125 :: real)" "- ln (72/125 :: real) \<le> 5535/10000"
proof -
  have "ln (72 :: real) = 3 * ln 2 + 2 * ln 3"
    using ln_mult [of "2 ^ 3" "3 ^ 2"] ln_realpow [of 2 3] ln_realpow [of 3 2] by simp
  moreover have "ln (125 :: real) = 3 * ln 5"
    using ln_realpow [of 5 3] by simp
  ultimately have "ln (72/125 :: real) = 3 * ln 2 + 2 * ln 3 - 3 * ln 5"
    by (simp add: ln_div)
  then show "55/100 \<le> - ln (72/125 :: real)" "- ln (72/125 :: real) \<le> 5535/10000"
    using ln2_bounds ln3_bounds ln5_bounds by simp_all
qed

lemma neg_ln_32_75: "85/100 \<le> - ln (32/75 :: real)"
proof -
  have "ln (32 :: real) = 5 * ln 2"
    using ln_realpow [of 2 5] by simp
  moreover have "ln (75 :: real) = ln 3 + 2 * ln 5"
    using ln_mult [of 3 "5 ^ 2"] ln_realpow [of 5 2] by simp
  ultimately have "ln (32/75 :: real) = 5 * ln 2 - ln 3 - 2 * ln 5"
    by (simp add: ln_div)
  then show ?thesis
    using ln2_bounds ln3_bounds ln5_bounds by simp
qed

text \<open>Comparing a threshold with \<open>2 powr (- (Q / N))\<close> through bounds of its parts.\<close>

lemma powr_above:
  fixes T Q N :: real
  assumes "0 < T" and "0 \<le> Q" and "Q \<le> Qh" and "0 < Nl" and "Nl \<le> N"
    and "0 \<le> Pl" and "Pl \<le> - ln T" and "ln 2 \<le> lh" and "Qh * lh < Nl * Pl"
  shows "T < 2 powr (- (Q / N))"
proof -
  have N: "0 < N" using assms(4,5) by linarith
  have "Q * ln 2 \<le> Qh * lh"
    using assms(2,3,8) by (intro mult_mono) simp_all
  also have "\<dots> < Nl * Pl" by (rule assms(9))
  also have "\<dots> \<le> N * (- ln T)"
    using assms(4-7) by (intro mult_mono) simp_all
  finally have "Q * ln 2 / N < - ln T"
    using N by (simp add: pos_divide_less_eq mult.commute)
  then have "ln T < - (Q / N) * ln 2" by simp
  then have "exp (ln T) < exp (- (Q / N) * ln 2)" by (simp only: exp_less_cancel_iff)
  then show ?thesis using assms(1) by (simp add: powr_def mult.commute)
qed

lemma powr_below:
  fixes T Q N :: real
  assumes "0 < T" and "0 \<le> Ql" and "Ql \<le> Q" and "0 < N" and "N \<le> Nh"
    and "0 \<le> - ln T" and "- ln T \<le> Ph" and "0 \<le> ll" and "ll \<le> ln 2" and "Nh * Ph \<le> Ql * ll"
  shows "2 powr (- (Q / N)) \<le> T"
proof -
  have "N * (- ln T) \<le> Nh * Ph"
    using assms(4-7) by (intro mult_mono) simp_all
  also have "\<dots> \<le> Ql * ll" by (rule assms(10))
  also have "\<dots> \<le> Q * ln 2"
    using assms(2,3,8,9) by (intro mult_mono) simp_all
  finally have "- ln T \<le> Q * ln 2 / N"
    using assms(4) by (simp add: pos_le_divide_eq mult.commute)
  then have "- (Q / N) * ln 2 \<le> ln T" by simp
  then have "exp (- (Q / N) * ln 2) \<le> exp (ln T)" by (simp only: exp_le_cancel_iff)
  then show ?thesis using assms(1) by (simp add: powr_def mult.commute)
qed

lemma path_nonneg: "0 \<le> 1 + leaf_correction m"
proof (cases "1 < m")
  case True
  define x where "x = ln (real m - 1)"
  define y where "y = 2 * (real m - 1) / real m"
  from True have "1 \<le> real m - 1" by simp
  then have a: "0 \<le> x" by (simp add: x_def)
  have b: "y \<le> 2"
    using True by (simp add: y_def pos_divide_le_eq)
  have "leaf_correction m = 2 * (x + 5772156649 / 10000000000) - y"
    using True by (simp add: leaf_correction_def euler_gamma_def x_def y_def)
  with a b show ?thesis by simp
next
  case False
  then show ?thesis by (simp add: leaf_correction_def)
qed

lemma score_3_above:
  assumes "n = 11" and "m = 3" and "t \<le> 16/25"
  shows "t < two_kind_score m n"
proof -
  have "16/25 < 2 powr (- ((1 + leaf_correction 3) / normaliser 11))"
    by (rule powr_above [OF _ path_nonneg path_3 _ normaliser_11(1) _ neg_ln_16_25(1)
          ln2_bounds(2)]) simp_all
  with assms show ?thesis by (simp add: two_kind_score_def)
qed

lemma score_4_above:
  assumes "n = 11" and "m = 4" and "t \<le> 72/125"
  shows "t < two_kind_score m n"
proof -
  have "72/125 < 2 powr (- ((1 + leaf_correction 4) / normaliser 11))"
    by (rule powr_above [OF _ path_nonneg path_4(2) _ normaliser_11(1) _ neg_ln_72_125(1)
          ln2_bounds(2)]) simp_all
  with assms show ?thesis by (simp add: two_kind_score_def)
qed

lemma normaliser_11_pos: "0 < normaliser 11"
  using normaliser_11(1) by linarith

lemma score_4_below:
  assumes "n = 11" and "m = 4" and "16/25 \<le> t"
  shows "\<not> t < two_kind_score m n"
proof -
  have p: "0 \<le> - ln (16/25 :: real)" using neg_ln_16_25(1) by linarith
  have "2 powr (- ((1 + leaf_correction 4) / normaliser 11)) \<le> 16/25"
    by (rule powr_below [OF _ _ path_4(1) normaliser_11_pos normaliser_11(2) p
          neg_ln_16_25(2) _ ln2_bounds(1)]) simp_all
  with assms show ?thesis by (simp add: two_kind_score_def)
qed

lemma score_5_9_above:
  assumes "n = 11" and "5 \<le> m" and "m \<le> 9" and "t \<le> 32/75"
  shows "t < two_kind_score m n"
proof -
  have "32/75 < 2 powr (- ((1 + leaf_correction m) / normaliser 11))"
    by (rule powr_above [OF _ path_nonneg path_5_9(2) [OF assms(2,3)] _ normaliser_11(1) _
          neg_ln_32_75 ln2_bounds(2)]) simp_all
  with assms show ?thesis by (simp add: two_kind_score_def)
qed

lemma score_5_9_below:
  assumes "n = 11" and "5 \<le> m" and "m \<le> 9" and "72/125 \<le> t"
  shows "\<not> t < two_kind_score m n"
proof -
  have p: "0 \<le> - ln (72/125 :: real)" using neg_ln_72_125(1) by linarith
  have "2 powr (- ((1 + leaf_correction m) / normaliser 11)) \<le> 72/125"
    by (rule powr_below [OF _ _ path_5_9(1) [OF assms(2,3)] normaliser_11_pos normaliser_11(2)
          p neg_ln_72_125(2) _ ln2_bounds(1)]) simp_all
  with assms show ?thesis by (simp add: two_kind_score_def)
qed

lemma scaled_less:
  fixes a d x :: real
  assumes "0 < d"
  shows "a < x * d \<longleftrightarrow> a / d < x"
  using assms by (simp add: pos_divide_less_eq)

lemma score_3_rule:
  "n = 11 \<Longrightarrow> m = 3 \<Longrightarrow> 0 < d \<Longrightarrow> a / d \<le> 16/25 \<Longrightarrow> a < two_kind_score m n * d"
  by (simp only: scaled_less score_3_above)

lemma score_4_rule:
  "n = 11 \<Longrightarrow> m = 4 \<Longrightarrow> 0 < d \<Longrightarrow> a / d \<le> 72/125 \<Longrightarrow> a < two_kind_score m n * d"
  by (simp only: scaled_less score_4_above)

lemma score_4_rule_not:
  "n = 11 \<Longrightarrow> m = 4 \<Longrightarrow> 0 < d \<Longrightarrow> 16/25 \<le> a / d \<Longrightarrow> \<not> a < two_kind_score m n * d"
  by (simp only: scaled_less score_4_below not_False_eq_True)

lemma score_5_9_rule:
  "n = 11 \<Longrightarrow> 5 \<le> m \<Longrightarrow> m \<le> 9 \<Longrightarrow> 0 < d \<Longrightarrow> a / d \<le> 32/75
     \<Longrightarrow> a < two_kind_score m n * d"
  by (simp only: scaled_less score_5_9_above)

lemma score_5_9_rule_not:
  "n = 11 \<Longrightarrow> 5 \<le> m \<Longrightarrow> m \<le> 9 \<Longrightarrow> 0 < d \<Longrightarrow> 72/125 \<le> a / d
     \<Longrightarrow> \<not> a < two_kind_score m n * d"
  by (simp only: scaled_less score_5_9_below not_False_eq_True)

lemmas score_rules = score_3_rule score_4_rule score_4_rule_not score_5_9_rule score_5_9_rule_not

subsection \<open>Evaluating the examples\<close>

lemmas eval_simps = run_def req_def hit_def calm_def odd_def init_def record_request_def Let_def
     dd_get_def dd_touch_def deque_append_def clean_old_data_def clean_ip_def first_in_window.simps
     extract_features_for_ip_def features_def list_max_def list_min_def ratio_def mean_def std_def bucket_counts_def py_int_def
     check_anomaly_realtime_def block_ip_def error_ratio_scorer_def periodic_analysis_def analyse_ip_def


lemmas eval_congs = option.case_cong_weak let_weak_cong

lemma run_append: "run fit (evs @ evs') s = run fit evs' (run fit evs s)"
  by (simp add: run_def)

lemma first_wave_state: "run fit first_wave (init t 15 2) = five t"
  by (simp add: first_wave_def five_def eval_simps cong: eval_congs)

lemma crowd_state_fp:
  "run fit crowd (load_state (Some ([], fps)) (init t 300 2)) = gathering t (set fps)"
  by (simp add: crowd_def gathering_def load_state_def eval_simps cong: eval_congs)

lemma crowd_state: "run fit crowd (init t 300 2) = gathering t {}"
  using crowd_state_fp [of fit "[]" t] by (simp add: load_state_def init_def)

lemma crowded_state:
  "refreshed 1 ''a'' (hit 1 200) (gathering t F) = crowded t F"
  by (simp add: refreshed_def stored_def appended_def enough_samples_def gathering_def
      crowded_def eval_simps cong: eval_congs)

lemma assembled_state: "run fit arrival (init t 1 2) = assembled t"
  by (simp add: arrival_def assembled_def eval_simps cong: eval_congs)

lemma surge_low:
  "blocked_ips (run (isolation_forest other) surge (assembled (48/125))) = {''a''}"
  by (simp add: surge_def assembled_def isolation_forest_def score_rules eval_simps
      cong: eval_congs)

lemma surge_high:
  "blocked_ips (run (isolation_forest other) surge (assembled (32/75))) = {''e'', ''b''}"
  by (simp add: surge_def assembled_def isolation_forest_def score_rules eval_simps
      cong: eval_congs)

lemma a_request:
  "record_request error_ratio_scorer 1 ''a'' 1 1500 ''GET'' ''/'' 200 (gathering t F)
     = check_anomaly_realtime error_ratio_scorer ''a'' (crowded t F)"
proof -
  have "''a'' \<notin> blocked_ips (gathering t F)"
    by (simp add: gathering_def)
  moreover have "reaches_check ''a'' (crowded t F)"
    by (simp add: reaches_check_def enough_samples_def crowded_def dd_get_def)
  ultimately show ?thesis
    by (simp add: record_request_unfold Let_def crowded_state [unfolded hit_def])
qed

section \<open>Window eviction\<close>

text \<open>
  C1. The claim: after a prune no record older than \<open>now - window_size\<close> is left in the
  key's window, and none influences a later feature extraction. \<open>_clean_old_data\<close> trims
  \<open>ip_timestamps\<close> only; \<open>traffic_data\<close>, from which the features are computed, is
  deleted when every timestamp of the key is old and is otherwise left alone. The theorem
  evaluates the code on five requests of one source at seconds 0, 1, 2, 3 and 1000 with
  the default window of 300 seconds: after a prune at second 1000 the timestamp list holds
  the last entry only, the window still holds all five records, and the request rate
  extracted from it is 5 requests per 1000 seconds.
\<close>

theorem prune_keeps_old_records:
  "dd_get [] ''10.0.0.99''
     (ip_timestamps (clean_old_data 1000 (run error_ratio_scorer late_burst (init (4/5) 300 100))))
     = [1000]
   \<and> map timestamp
       (dd_get [] ''10.0.0.99''
          (traffic_data (clean_old_data 1000 (run error_ratio_scorer late_burst (init (4/5) 300 100)))))
     = [0, 1, 2, 3, 1000]
   \<and> hd (dd_get [] ''10.0.0.99''
       (ip_features (extract_features_for_ip ''10.0.0.99''
          (clean_old_data 1000 (run error_ratio_scorer late_burst (init (4/5) 300 100))))))
     = 5 / 1000"
  by (simp add: late_burst_def eval_simps cong: eval_congs)

section \<open>Blocked sources are rejected without effect\<close>

text \<open>
  C2. For a key in the blocked set, \<open>record_request\<close> returns \<open>False\<close> and the whole detector
  state, in particular the key's window, its timestamps and the feature cache, is the one
  before the call.
\<close>

theorem record_request_blocked:
  "ip \<in> blocked_ips s \<Longrightarrow> record_request fit now ip ts b m u c s = (False, s)"
  by (simp add: record_request_def)

text \<open>A detector whose state file listed one blocked address.\<close>

theorem record_request_blocked_witness:
  "''10.0.0.99'' \<in> blocked_ips barred
   \<and> record_request error_ratio_scorer 5 ''10.0.0.99'' 5 1500 ''GET'' ''/'' 200 barred
       = (False, barred)"
  using record_request_blocked [where ip = "''10.0.0.99''" and s = barred
      and fit = error_ratio_scorer and now = 5 and ts = 5 and b = 1500 and m = "''GET''"
      and u = "''/''" and c = 200]
  by (simp add: barred_def load_state_def init_def)

section \<open>False positives are never scored\<close>

text \<open>
  C3. Let \<open>k\<close> be a false positive that is not blocked. After any sequence of requests of
  any sources, periodic analyses and unblock calls, \<open>k\<close> is still a false positive and
  not blocked, it is suspicious only if it was before, and the next request of \<open>k\<close>
  returns \<open>True\<close> without starting a training and without changing the blocked or the
  suspicious set.
\<close>

theorem false_positive_override:
  assumes "k \<in> false_positives s" and "k \<notin> blocked_ips s"
  shows "k \<in> false_positives (run fit evs s) \<and> k \<notin> blocked_ips (run fit evs s)
         \<and> (k \<in> suspicious_ips (run fit evs s) \<longleftrightarrow> k \<in> suspicious_ips s)
         \<and> fst (record_request fit now k ts b m u c (run fit evs s))
         \<and> model_fits (snd (record_request fit now k ts b m u c (run fit evs s)))
             = model_fits (run fit evs s)
         \<and> blocked_ips (snd (record_request fit now k ts b m u c (run fit evs s)))
             = blocked_ips (run fit evs s)
         \<and> suspicious_ips (snd (record_request fit now k ts b m u c (run fit evs s)))
             = suspicious_ips (run fit evs s)"
proof -
  from assms have "exempt k s" by (simp add: exempt_def)
  from run_exempt [OF this, of fit evs]
  have ex: "exempt k (run fit evs s)"
    and su: "k \<in> suspicious_ips (run fit evs s) \<longleftrightarrow> k \<in> suspicious_ips s"
    by simp_all
  from ex have fp: "k \<in> false_positives (run fit evs s)" and nb: "k \<notin> blocked_ips (run fit evs s)"
    by (simp_all add: exempt_def)
  show ?thesis
    using fp nb su by (simp add: record_request_false_positive [OF fp nb])
qed

text \<open>
  The source \<open>a\<close> of the example, with the highest error ratio of the five, listed as a
  false positive in the state file.
\<close>

theorem false_positive_override_witness:
  "''a'' \<in> false_positives pardoned \<and> ''a'' \<notin> blocked_ips pardoned
   \<and> ''a'' \<notin> blocked_ips (run error_ratio_scorer (first_wave @ second_wave) pardoned)
   \<and> ''a'' \<notin> suspicious_ips (run error_ratio_scorer (first_wave @ second_wave) pardoned)
   \<and> fst (record_request error_ratio_scorer 21 ''a'' 21 1500 ''GET'' ''/'' 404
            (run error_ratio_scorer (first_wave @ second_wave) pardoned))"
  using false_positive_override [where k = "''a''" and s = pardoned
      and fit = error_ratio_scorer and evs = "first_wave @ second_wave" and now = 21 and ts = 21
      and b = 1500 and m = "''GET''" and u = "''/''" and c = 404]
  by (simp add: pardoned_def load_state_def init_def)

section \<open>The population gate of the inline path\<close>

text \<open>
  C4, as stated: on a call that reaches the anomaly check, scoring is skipped below ten
  cached feature vectors and invoked from ten on when the key has a cached vector. The
  code calls \<open>_check_anomaly_realtime\<close> only with more than ten cached vectors, and that
  function returns before scoring for a false positive. First conjuncts: after \<open>crowd\<close> the
  cache holds ten vectors, one of them for \<open>b\<close>; a further request of \<open>b\<close> starts no
  training. Last conjuncts: with eleven vectors and \<open>b\<close> a false positive, the same.
\<close>

theorem scoring_skipped_at_ten:
  "10 \<le> length (ip_features (snd (record_request error_ratio_scorer 2 ''b'' 2 1500 ''GET'' ''/'' 200
            (run error_ratio_scorer crowd (init (4/5) 300 2)))))
   \<and> map_of (ip_features (snd (record_request error_ratio_scorer 2 ''b'' 2 1500 ''GET'' ''/'' 200
            (run error_ratio_scorer crowd (init (4/5) 300 2))))) ''b'' \<noteq> None
   \<and> model_fits (snd (record_request error_ratio_scorer 2 ''b'' 2 1500 ''GET'' ''/'' 200
            (run error_ratio_scorer crowd (init (4/5) 300 2))))
       = model_fits (run error_ratio_scorer crowd (init (4/5) 300 2))
   \<and> 10 \<le> length (ip_features (snd (record_request error_ratio_scorer 2 ''b'' 2 1500 ''GET'' ''/'' 200
            (run error_ratio_scorer (crowd @ [req 1 ''a'' 200])
               (load_state (Some ([], [''b''])) (init (4/5) 300 2))))))
   \<and> map_of (ip_features (snd (record_request error_ratio_scorer 2 ''b'' 2 1500 ''GET'' ''/'' 200
            (run error_ratio_scorer (crowd @ [req 1 ''a'' 200])
               (load_state (Some ([], [''b''])) (init (4/5) 300 2)))))) ''b'' \<noteq> None
   \<and> model_fits (snd (record_request error_ratio_scorer 2 ''b'' 2 1500 ''GET'' ''/'' 200
            (run error_ratio_scorer (crowd @ [req 1 ''a'' 200])
               (load_state (Some ([], [''b''])) (init (4/5) 300 2)))))
       = model_fits (run error_ratio_scorer (crowd @ [req 1 ''a'' 200])
               (load_state (Some ([], [''b''])) (init (4/5) 300 2)))"
proof -
  have ten: "10 \<le> length (ip_features (snd (record_request error_ratio_scorer 2 ''b'' 2 1500 ''GET'' ''/'' 200
            (gathering (4/5) {}))))
   \<and> map_of (ip_features (snd (record_request error_ratio_scorer 2 ''b'' 2 1500 ''GET'' ''/'' 200
            (gathering (4/5) {})))) ''b'' \<noteq> None
   \<and> model_fits (snd (record_request error_ratio_scorer 2 ''b'' 2 1500 ''GET'' ''/'' 200
            (gathering (4/5) {}))) = model_fits (gathering (4/5) {})"
    by (simp add: gathering_def eval_simps cong: eval_congs)
  have fp: "10 \<le> length (ip_features (snd (record_request error_ratio_scorer 2 ''b'' 2 1500 ''GET'' ''/'' 200
            (run error_ratio_scorer [req 1 ''a'' 200] (gathering (4/5) {''b''})))))
   \<and> map_of (ip_features (snd (record_request error_ratio_scorer 2 ''b'' 2 1500 ''GET'' ''/'' 200
            (run error_ratio_scorer [req 1 ''a'' 200] (gathering (4/5) {''b''}))))) ''b'' \<noteq> None
   \<and> model_fits (snd (record_request error_ratio_scorer 2 ''b'' 2 1500 ''GET'' ''/'' 200
            (run error_ratio_scorer [req 1 ''a'' 200] (gathering (4/5) {''b''}))))
       = model_fits (run error_ratio_scorer [req 1 ''a'' 200] (gathering (4/5) {''b''}))"
    by (simp add: gathering_def eval_simps cong: eval_congs)
  from ten fp show ?thesis
    by (simp add: run_append crowd_state crowd_state_fp [of _ "[''b'']", simplified])
qed

text \<open>
  C4, amended. Take a request of a key that is not blocked and that has enough samples after
  the call (at least \<open>min 5 features_window\<close>). If the cache then holds at most ten
  feature vectors, the call returns \<open>True\<close>, starts no training and leaves the blocked and
  the suspicious set alone. If it holds more than ten, among them one for the key, and the
  key is no false positive, the call starts exactly one training; when training raises the
  call returns \<open>True\<close>; otherwise it returns \<open>False\<close> exactly when the score is above the
  threshold and above 1.5 times the threshold, and the key is suspicious afterwards
  exactly when it was before or the score is above the threshold.
\<close>

theorem inline_scoring_gate:
  assumes "ip \<notin> blocked_ips s"
    and "enough_samples ip (snd (record_request fit now ip ts b m u c s))"
  shows "(length (ip_features (snd (record_request fit now ip ts b m u c s))) \<le> 10 \<longrightarrow>
            fst (record_request fit now ip ts b m u c s)
            \<and> model_fits (snd (record_request fit now ip ts b m u c s)) = model_fits s
            \<and> blocked_ips (snd (record_request fit now ip ts b m u c s)) = blocked_ips s
            \<and> suspicious_ips (snd (record_request fit now ip ts b m u c s)) = suspicious_ips s)
         \<and> (10 < length (ip_features (snd (record_request fit now ip ts b m u c s)))
            \<and> map_of (ip_features (snd (record_request fit now ip ts b m u c s))) ip = Some v
            \<and> ip \<notin> false_positives s \<longrightarrow>
              model_fits (snd (record_request fit now ip ts b m u c s)) = Suc (model_fits s)
              \<and> (fit (map snd (ip_features (snd (record_request fit now ip ts b m u c s)))) = None
                   \<longrightarrow> fst (record_request fit now ip ts b m u c s))
              \<and> (\<forall>score.
                    fit (map snd (ip_features (snd (record_request fit now ip ts b m u c s))))
                      = Some score \<longrightarrow>
                    (fst (record_request fit now ip ts b m u c s)
                       \<longleftrightarrow> \<not> (block_threshold s < score v \<and> block_threshold s * 1.5 < score v))
                    \<and> (ip \<in> suspicious_ips (snd (record_request fit now ip ts b m u c s))
                       \<longleftrightarrow> ip \<in> suspicious_ips s \<or> block_threshold s < score v)))"
proof -
  let ?r = "\<lparr>timestamp = ts, bytes = b, http_method = m, url = u, status_code = c\<rparr>"
  let ?R = "refreshed now ip ?r s"
  show ?thesis
  proof (cases "reaches_check ip ?R")
    case True
    then have res: "record_request fit now ip ts b m u c s = check_anomaly_realtime fit ip ?R"
      using assms(1) by (simp add: record_request_unfold Let_def)
    from True have big: "10 \<le> length (ip_features ?R)" "\<not> length (ip_features ?R) \<le> 10"
      by (simp_all add: reaches_check_def)
    show ?thesis
    proof (cases "ip \<in> false_positives s")
      case True
      then show ?thesis
        using big by (simp add: res check_anomaly_realtime_false_positive)
    next
      case False
      then have "ip \<notin> false_positives ?R" by simp
      from check_anomaly_realtime_population [OF this, of fit v] big
      show ?thesis
        by (simp add: res check_anomaly_realtime_frame)
    qed
  next
    case False
    then have res: "record_request fit now ip ts b m u c s = (True, ?R)"
      using assms(1) by (simp add: record_request_unfold Let_def)
    from False assms(2) show ?thesis
      by (auto simp add: res reaches_check_def)
  qed
qed

text \<open>The eleventh source of \<open>crowd\<close> completes its second request at threshold 0.2.\<close>

theorem inline_scoring_gate_witness:
  "''a'' \<notin> blocked_ips (gathering (1/5) {})
   \<and> enough_samples ''a''
        (snd (record_request error_ratio_scorer 1 ''a'' 1 1500 ''GET'' ''/'' 200 (gathering (1/5) {})))
   \<and> length (ip_features
        (snd (record_request error_ratio_scorer 1 ''a'' 1 1500 ''GET'' ''/'' 200 (gathering (1/5) {}))))
       = 11
   \<and> model_fits
        (snd (record_request error_ratio_scorer 1 ''a'' 1 1500 ''GET'' ''/'' 200 (gathering (1/5) {})))
       = 1
   \<and> \<not> fst (record_request error_ratio_scorer 1 ''a'' 1 1500 ''GET'' ''/'' 200 (gathering (1/5) {}))
   \<and> ''a'' \<in> suspicious_ips
        (snd (record_request error_ratio_scorer 1 ''a'' 1 1500 ''GET'' ''/'' 200 (gathering (1/5) {})))"
proof -
  let ?res = "record_request error_ratio_scorer 1 ''a'' 1 1500 ''GET'' ''/'' 200 (gathering (1/5) {})"
  have nb: "''a'' \<notin> blocked_ips (gathering (1/5) {})"
    by (simp add: gathering_def)
  have feats: "ip_features (snd ?res) = ip_features (crowded (1/5) {})"
    and data: "traffic_data (snd ?res) = traffic_data (crowded (1/5) {})"
    and fw: "features_window (snd ?res) = features_window (crowded (1/5) {})"
    by (simp_all add: a_request check_anomaly_realtime_frame)
  have es: "enough_samples ''a'' (snd ?res)"
    by (simp add: enough_samples_def data fw) (simp add: crowded_def dd_get_def)
  have len: "length (ip_features (snd ?res)) = 11"
    and look: "map_of (ip_features (snd ?res)) ''a'' = Some odd"
    by (simp_all add: feats crowded_def)
  have sc: "error_ratio_scorer (map snd (ip_features (snd ?res))) = Some (\<lambda>v. v ! 7)"
    by (simp add: error_ratio_scorer_def)
  from inline_scoring_gate [OF nb es, where v = odd] len look sc
  show ?thesis
    using nb es by (simp add: gathering_def odd_def)
qed

section \<open>The decision policy\<close>

text \<open>
  C5. Let the key be neither blocked nor a false positive, let training succeed with the
  scoring function \<open>score\<close>, and let \<open>v\<close> be the key's cached vector. Inline (at least ten
  cached vectors): a score above the threshold makes the key suspicious, blocks it exactly
  when the score is above 1.5 times the threshold, and the call returns \<open>False\<close> exactly
  then; a score at most the threshold gives \<open>True\<close> and the state before the call, up to the
  training counter. Periodic (at least five cached vectors): a score above the threshold
  makes the key suspicious and blocks it exactly when the score is above 1.3 times the
  threshold; a score at most the threshold leaves the key as it was, not blocked and
  suspicious only if it was before.
\<close>

theorem decision_policy:
  assumes "ip \<notin> blocked_ips s" and "ip \<notin> false_positives s"
    and "fit (map snd (ip_features s)) = Some score"
    and "map_of (ip_features s) ip = Some v"
    and "distinct (map fst (ip_features s))"
  shows "(10 \<le> length (ip_features s) \<longrightarrow>
            (block_threshold s < score v \<longrightarrow>
               ip \<in> suspicious_ips (snd (check_anomaly_realtime fit ip s))
               \<and> (ip \<in> blocked_ips (snd (check_anomaly_realtime fit ip s))
                    \<longleftrightarrow> block_threshold s * 1.5 < score v)
               \<and> (fst (check_anomaly_realtime fit ip s)
                    \<longleftrightarrow> \<not> block_threshold s * 1.5 < score v))
            \<and> (score v \<le> block_threshold s \<longrightarrow>
                 check_anomaly_realtime fit ip s = (True, s\<lparr>model_fits := Suc (model_fits s)\<rparr>)))
         \<and> (5 \<le> length (ip_features s) \<longrightarrow>
            (block_threshold s < score v \<longrightarrow>
               ip \<in> suspicious_ips (periodic_analysis fit now s)
               \<and> (ip \<in> blocked_ips (periodic_analysis fit now s)
                    \<longleftrightarrow> block_threshold s * 1.3 < score v))
            \<and> (score v \<le> block_threshold s \<longrightarrow>
                 (ip \<in> suspicious_ips (periodic_analysis fit now s) \<longleftrightarrow> ip \<in> suspicious_ips s)
                 \<and> ip \<notin> blocked_ips (periodic_analysis fit now s)))"
proof -
  have mem: "(ip, w) \<in> set (ip_features s) \<longleftrightarrow> w = v" for w
    using assms(4,5) by (metis map_of_eq_Some_iff option.inject)
  have inline: "10 \<le> length (ip_features s) \<Longrightarrow> block_threshold s < score v \<Longrightarrow>
      ip \<in> suspicious_ips (snd (check_anomaly_realtime fit ip s))
      \<and> (ip \<in> blocked_ips (snd (check_anomaly_realtime fit ip s))
           \<longleftrightarrow> block_threshold s * 1.5 < score v)
      \<and> (fst (check_anomaly_realtime fit ip s) \<longleftrightarrow> \<not> block_threshold s * 1.5 < score v)"
    using assms(1-4) by (simp add: check_anomaly_realtime_def Let_def)
  have inline_low: "10 \<le> length (ip_features s) \<Longrightarrow> score v \<le> block_threshold s \<Longrightarrow>
      check_anomaly_realtime fit ip s = (True, s\<lparr>model_fits := Suc (model_fits s)\<rparr>)"
    using assms(1-4) by (simp add: check_anomaly_realtime_def Let_def)
  have sweep: "5 \<le> length (ip_features s) \<Longrightarrow> block_threshold s < score v \<Longrightarrow>
      ip \<in> suspicious_ips (periodic_analysis fit now s)
      \<and> (ip \<in> blocked_ips (periodic_analysis fit now s) \<longleftrightarrow> block_threshold s * 1.3 < score v)"
    using assms(1-3)
    by (simp add: periodic_analysis_blocked periodic_analysis_suspicious flagged_def mem)
  have sweep_low: "5 \<le> length (ip_features s) \<Longrightarrow> score v \<le> block_threshold s \<Longrightarrow>
      (ip \<in> suspicious_ips (periodic_analysis fit now s) \<longleftrightarrow> ip \<in> suspicious_ips s)
      \<and> ip \<notin> blocked_ips (periodic_analysis fit now s)"
    using assms(1-3)
    by (simp add: periodic_analysis_blocked periodic_analysis_suspicious flagged_def mem)
  from inline inline_low sweep sweep_low show ?thesis by blast
qed

text \<open>Source \<open>a\<close> with error ratio 0.5 among eleven sources at threshold 0.2.\<close>

theorem decision_policy_witness:
  "''a'' \<notin> blocked_ips (crowded (1/5) {}) \<and> ''a'' \<notin> false_positives (crowded (1/5) {})
   \<and> map_of (ip_features (crowded (1/5) {})) ''a'' = Some odd
   \<and> distinct (map fst (ip_features (crowded (1/5) {})))
   \<and> ''a'' \<in> suspicious_ips (snd (check_anomaly_realtime error_ratio_scorer ''a'' (crowded (1/5) {})))
   \<and> ''a'' \<in> blocked_ips (snd (check_anomaly_realtime error_ratio_scorer ''a'' (crowded (1/5) {})))
   \<and> \<not> fst (check_anomaly_realtime error_ratio_scorer ''a'' (crowded (1/5) {}))
   \<and> ''a'' \<in> suspicious_ips (periodic_analysis error_ratio_scorer 10 (crowded (1/5) {}))
   \<and> ''a'' \<in> blocked_ips (periodic_analysis error_ratio_scorer 10 (crowded (1/5) {}))"
proof -
  have h: "''a'' \<notin> blocked_ips (crowded (1/5) {})" "''a'' \<notin> false_positives (crowded (1/5) {})"
    "error_ratio_scorer (map snd (ip_features (crowded (1/5) {}))) = Some (\<lambda>v. v ! 7)"
    "map_of (ip_features (crowded (1/5) {})) ''a'' = Some odd"
    "distinct (map fst (ip_features (crowded (1/5) {})))"
    by (simp_all add: crowded_def error_ratio_scorer_def)
  have n: "length (ip_features (crowded (1/5) {})) = 11" "block_threshold (crowded (1/5) {}) = 1/5"
    by (simp_all add: crowded_def)
  from decision_policy [where fit = error_ratio_scorer and score = "\<lambda>v. v ! 7"
      and ip = "''a''" and s = "crowded (1/5) {}" and v = odd and now = 10, OF h] h(1,2,4,5)
  show ?thesis
    by (simp add: n odd_def)
qed

section \<open>Raising the threshold\<close>

text \<open>
  C6, as stated: for a fixed trace from the empty state, a higher threshold never gives more
  blocked sources. Take window 1, \<open>features_window\<close> 2, the trace \<open>arrival @ surge\<close> and
  the isolation forest; every population scored on this trace has two kinds of vectors and
  no scored vector shares its leaf with fewer than two others. Threshold 0.384 ends with
  one blocked source, threshold 32/75 with two. The second request of \<open>a\<close> is the first
  one scored, as one of four odd vectors among eleven (0.606): above 1.5 times 0.384, not
  above 1.5 times 32/75. At 0.384 \<open>a\<close> is blocked, its later request is rejected, its
  timestamps age out at second 3 and the cache drops to ten vectors, so that no request is
  scored any more. At 32/75 \<open>a\<close> stays, the cache keeps eleven vectors, and at second 3
  \<open>b\<close> and \<open>e\<close> are each scored as one of three odd vectors (0.678) and blocked.
\<close>

theorem threshold_not_monotone_on_traces:
  "\<not> card (blocked_ips (run (isolation_forest (\<lambda>X. None)) (arrival @ surge) (init (32/75) 1 2)))
       \<le> card (blocked_ips (run (isolation_forest (\<lambda>X. None)) (arrival @ surge)
                 (init (48/125) 1 2)))"
  by (simp add: run_append assembled_state surge_low surge_high)

text \<open>
  C6, amended. For one operation (a request, a periodic analysis or an unblock call) run
  from the same state under two thresholds \<open>t1 \<le> t2\<close>, every source blocked under \<open>t2\<close>
  is blocked under \<open>t1\<close>; for a finite blocked set the number of blocked sources under
  \<open>t2\<close> is at most the number under \<open>t1\<close>.
\<close>

theorem threshold_step_monotone:
  assumes "t1 \<le> t2" and "finite (blocked_ips s)"
  shows "blocked_ips (step fit ev (s\<lparr>block_threshold := t2\<rparr>))
           \<subseteq> blocked_ips (step fit ev (s\<lparr>block_threshold := t1\<rparr>))
         \<and> card (blocked_ips (step fit ev (s\<lparr>block_threshold := t2\<rparr>)))
           \<le> card (blocked_ips (step fit ev (s\<lparr>block_threshold := t1\<rparr>)))"
proof -
  have sub: "blocked_ips (step fit ev (s\<lparr>block_threshold := t2\<rparr>))
           \<subseteq> blocked_ips (step fit ev (s\<lparr>block_threshold := t1\<rparr>))"
  proof (cases ev)
    case (Request now ip ts b m u c)
    then show ?thesis using record_request_threshold_mono [OF assms(1)] by simp
  next
    case (Sweep now)
    then show ?thesis using periodic_analysis_threshold_mono [OF assms(1)] by simp
  next
    case (Unblock ip mark)
    then show ?thesis by (simp add: unblock_ip_def Let_def)
  qed
  have "finite (blocked_ips (step fit ev (s\<lparr>block_threshold := t1\<rparr>)))"
    using assms(2) by (intro step_finite) simp
  with sub show ?thesis by (simp add: card_mono)
qed

text \<open>The first periodic analysis of the example under thresholds 0.2 and 0.4.\<close>

theorem threshold_step_monotone_witness:
  "(1/5 :: real) \<le> 2/5 \<and> finite (blocked_ips (five 0))
   \<and> blocked_ips (step error_ratio_scorer (Sweep 10) ((five 0)\<lparr>block_threshold := 2/5\<rparr>))
       \<subseteq> blocked_ips (step error_ratio_scorer (Sweep 10) ((five 0)\<lparr>block_threshold := 1/5\<rparr>))
   \<and> card (blocked_ips (step error_ratio_scorer (Sweep 10) ((five 0)\<lparr>block_threshold := 2/5\<rparr>)))
       \<le> card (blocked_ips (step error_ratio_scorer (Sweep 10) ((five 0)\<lparr>block_threshold := 1/5\<rparr>)))"
proof -
  have le: "(1/5 :: real) \<le> 2/5" by simp
  have fin: "finite (blocked_ips (five 0))" by (simp add: five_def)
  from threshold_step_monotone [OF le fin, of error_ratio_scorer "Sweep 10"] le fin
  show ?thesis by blast
qed

section \<open>Retraining\<close>

text \<open>
  C7, as stated: once a model has been fitted, no inline call fits it again. In the trace
  \<open>crowd\<close> followed by two requests, all within two seconds and so before the first
  periodic analysis, the first of the two requests starts the first training and the
  second starts another one.
\<close>

theorem inline_retraining_repeats:
  "model_fits (run error_ratio_scorer (crowd @ [req 1 ''a'' 200]) (init (4/5) 300 2)) = 1
   \<and> model_fits (run error_ratio_scorer (crowd @ [req 1 ''a'' 200, req 2 ''b'' 200])
        (init (4/5) 300 2)) = 2"
  by (simp add: run_append crowd_state)
    (simp add: gathering_def eval_simps cong: eval_congs)

text \<open>
  C7, amended. A request starts a training exactly when its key is neither blocked nor a
  false positive and the call reaches the inline check (enough samples, a cached vector for
  the key, more than ten cached vectors), and then it starts exactly one, whether or not
  a model was fitted before. A periodic analysis starts exactly one training when the
  cache holds at least five vectors and none otherwise.
\<close>

theorem retraining_on_every_scored_call:
  "model_fits (snd (record_request fit now ip ts b m u c s)) =
     (if ip \<notin> blocked_ips s \<and> ip \<notin> false_positives s
         \<and> reaches_check ip (snd (record_request fit now ip ts b m u c s))
      then Suc (model_fits s) else model_fits s)
   \<and> model_fits (periodic_analysis fit now s) =
     (if length (ip_features s) < 5 then model_fits s else Suc (model_fits s))"
proof -
  let ?r = "\<lparr>timestamp = ts, bytes = b, http_method = m, url = u, status_code = c\<rparr>"
  have "model_fits (snd (record_request fit now ip ts b m u c s)) =
     (if ip \<notin> blocked_ips s \<and> ip \<notin> false_positives s
         \<and> reaches_check ip (snd (record_request fit now ip ts b m u c s))
      then Suc (model_fits s) else model_fits s)"
  proof (cases "ip \<in> blocked_ips s")
    case True
    then show ?thesis by (simp add: record_request_unfold)
  next
    case nb: False
    show ?thesis
    proof (cases "reaches_check ip (refreshed now ip ?r s)")
      case True
      then have "10 \<le> length (ip_features (refreshed now ip ?r s))"
        by (simp add: reaches_check_def)
      with nb True show ?thesis
        by (simp add: record_request_unfold Let_def check_anomaly_realtime_fits
            check_anomaly_realtime_reaches)
    next
      case False
      with nb show ?thesis by (simp add: record_request_unfold Let_def)
    qed
  qed
  moreover have "model_fits (periodic_analysis fit now s) =
     (if length (ip_features s) < 5 then model_fits s else Suc (model_fits s))"
    by (simp add: periodic_analysis_def Let_def split: option.splits)
  ultimately show ?thesis by simp
qed

text \<open>The first scored request of the trace \<open>crowd\<close>, and a periodic analysis of the same state.\<close>

theorem retraining_on_every_scored_call_witness:
  "model_fits (snd (record_request error_ratio_scorer 1 ''a'' 1 1500 ''GET'' ''/'' 200
       (gathering (4/5) {}))) = 1
   \<and> model_fits (periodic_analysis error_ratio_scorer 1 (gathering (4/5) {})) = 1"
proof -
  have r: "reaches_check ''a'' (snd (record_request error_ratio_scorer 1 ''a'' 1 1500 ''GET'' ''/'' 200
       (gathering (4/5) {})))"
    by (simp add: a_request check_anomaly_realtime_reaches)
      (simp add: reaches_check_def enough_samples_def crowded_def dd_get_def)
  have g: "''a'' \<notin> blocked_ips (gathering (4/5) {})" "''a'' \<notin> false_positives (gathering (4/5) {})"
    "model_fits (gathering (4/5) {}) = 0" "\<not> length (ip_features (gathering (4/5) {})) < 5"
    by (simp_all add: gathering_def)
  from retraining_on_every_scored_call [where fit = error_ratio_scorer and now = 1
      and ip = "''a''" and ts = 1 and b = 1500 and m = "''GET''" and u = "''/''" and c = 200
      and s = "gathering (4/5) {}"] r g
  show ?thesis by simp
qed

section \<open>The status report\<close>

text \<open>
  C8, as stated: the count reported by \<open>get_status\<close> is the number of tracked sources,
  counted from the first request. After the first request of a source the traffic store and
  the timestamp table each hold one key and the reported count is 0.
\<close>

theorem tracked_source_not_counted:
  "card (fst ` set (ip_timestamps (run error_ratio_scorer [req 0 ''10.0.0.99'' 200] (init (4/5) 300 100)))) = 1
   \<and> card (fst ` set (traffic_data (run error_ratio_scorer [req 0 ''10.0.0.99'' 200] (init (4/5) 300 100)))) = 1
   \<and> monitoring_ips (get_status (run error_ratio_scorer [req 0 ''10.0.0.99'' 200] (init (4/5) 300 100))) = 0"
  by (simp add: get_status_def eval_simps cong: eval_congs)

text \<open>
  C8, amended. In every state reached from the initial one, with or without a state file,
  by requests, periodic analyses and unblock calls, the count reported by \<open>get_status\<close>
  is the number of sources that have a cached feature vector.
\<close>

theorem monitoring_ips_counts_feature_vectors:
  "monitoring_ips (get_status (run fit evs (load_state file (init thr ws fw))))
     = card {ip. map_of (ip_features (run fit evs (load_state file (init thr ws fw)))) ip \<noteq> None}"
proof -
  let ?s = "run fit evs (load_state file (init thr ws fw))"
  have "ip_features (load_state file (init thr ws fw)) = []"
    by (simp add: load_state_def init_def split: option.splits prod.splits)
  then have d: "distinct (map fst (ip_features ?s))"
    by (intro run_distinct) simp
  have "{ip. map_of (ip_features ?s) ip \<noteq> None} = set (map fst (ip_features ?s))"
    by (auto simp add: map_of_eq_None_iff)
  then show ?thesis
    using distinct_card [OF d] by (simp add: get_status_def)
qed

text \<open>After the trace \<open>crowd\<close> eleven sources are tracked and ten have a feature vector.\<close>

theorem monitoring_ips_counts_feature_vectors_witness:
  "monitoring_ips (get_status (run error_ratio_scorer crowd (init (4/5) 300 2))) = 10
   \<and> card {ip. map_of (ip_features (run error_ratio_scorer crowd (init (4/5) 300 2))) ip \<noteq> None}
       = 10"
proof -
  have "monitoring_ips (get_status (run error_ratio_scorer crowd (init (4/5) 300 2))) = 10"
    by (simp add: crowd_state get_status_def gathering_def)
  with monitoring_ips_counts_feature_vectors [of error_ratio_scorer crowd None "4/5" 300 2]
  show ?thesis by (simp add: load_state_def)
qed

section \<open>Unblocking\<close>

text \<open>
  C9. \<open>unblock_ip\<close> returns \<open>True\<close> exactly when the key was blocked; afterwards the key is not
  blocked; a blocked key unblocked with the flag set is a false positive afterwards; for a
  key that was not blocked the call returns \<open>False\<close> and leaves the state as it was, so the
  key does not enter the false positives whatever the flag.
\<close>

theorem unblock_ip_spec:
  "(fst (unblock_ip ip mark s) \<longleftrightarrow> ip \<in> blocked_ips s)
   \<and> ip \<notin> blocked_ips (snd (unblock_ip ip mark s))
   \<and> (ip \<in> blocked_ips s \<and> mark \<longrightarrow> ip \<in> false_positives (snd (unblock_ip ip mark s)))
   \<and> (ip \<notin> blocked_ips s \<longrightarrow> unblock_ip ip mark s = (False, s))"
  by (simp add: unblock_ip_def Let_def)

text \<open>Unblocking the listed address, and an address that is not blocked.\<close>

theorem unblock_ip_spec_witness:
  "fst (unblock_ip ''10.0.0.99'' True barred)
   \<and> ''10.0.0.99'' \<notin> blocked_ips (snd (unblock_ip ''10.0.0.99'' True barred))
   \<and> ''10.0.0.99'' \<in> false_positives (snd (unblock_ip ''10.0.0.99'' True barred))
   \<and> ''10.0.0.7'' \<notin> blocked_ips barred
   \<and> unblock_ip ''10.0.0.7'' True barred = (False, barred)"
  using unblock_ip_spec [where ip = "''10.0.0.99''" and mark = True and s = barred]
    unblock_ip_spec [where ip = "''10.0.0.7''" and mark = True and s = barred]
  by (simp add: barred_def load_state_def init_def)

section \<open>The suspicious set only grows\<close>

text \<open>
  C10. A suspicious key stays in the suspicious set reported by \<open>get_status\<close> after any
  sequence of requests, periodic analyses and unblock calls, and each single operation
  (pruning, unblocking, a request, a periodic analysis) keeps it in the set.
\<close>

theorem suspicious_only_grows:
  "ip \<in> suspicious_ips s \<Longrightarrow>
     ip \<in> st_suspicious_ips (get_status (run fit evs s))
     \<and> ip \<in> suspicious_ips (clean_old_data now s)
     \<and> ip \<in> suspicious_ips (snd (unblock_ip k mark s))
     \<and> ip \<in> suspicious_ips (snd (record_request fit now k ts b m u c s))
     \<and> ip \<in> suspicious_ips (periodic_analysis fit now s)"
  using run_suspicious [of s fit evs] step_suspicious [of s fit "Sweep now"]
    step_suspicious [of s fit "Request now k ts b m u c"]
  by (auto simp add: get_status_def)

text \<open>
  Source \<open>a\<close> of the example at threshold 0.2: marked by the first periodic analysis,
  evicted from the feature cache at second 30 and unblocked afterwards.
\<close>

theorem suspicious_only_grows_witness:
  "''a'' \<in> suspicious_ips (run error_ratio_scorer (first_wave @ [Sweep 10]) (init (1/5) 15 2))
   \<and> ''a'' \<notin> blocked_ips
        (run error_ratio_scorer third_wave
           (run error_ratio_scorer (first_wave @ [Sweep 10]) (init (1/5) 15 2)))
   \<and> map_of (ip_features
        (run error_ratio_scorer third_wave
           (run error_ratio_scorer (first_wave @ [Sweep 10]) (init (1/5) 15 2)))) ''a'' = None
   \<and> ''a'' \<in> st_suspicious_ips (get_status
        (run error_ratio_scorer third_wave
           (run error_ratio_scorer (first_wave @ [Sweep 10]) (init (1/5) 15 2))))"
proof -
  let ?B = "run error_ratio_scorer (first_wave @ [Sweep 10]) (init (1/5) 15 2)"
  have B: "''a'' \<in> suspicious_ips ?B"
    by (simp add: run_append first_wave_state) (simp add: five_def eval_simps cong: eval_congs)
  have gone: "''a'' \<notin> blocked_ips (run error_ratio_scorer third_wave ?B)
     \<and> map_of (ip_features (run error_ratio_scorer third_wave ?B)) ''a'' = None"
    by (simp add: run_append first_wave_state)
      (simp add: third_wave_def five_def unblock_ip_def eval_simps cong: eval_congs)
  from suspicious_only_grows [OF B, where fit = error_ratio_scorer and evs = third_wave] B gone
  show ?thesis by simp
qed

end
